theory Spec2Isabelle
  imports Complex_Main "HOL-Library.Product_Lexorder"
begin

section \<open>Conventions of the embedding\<close>

text \<open>
  The repository is a Node/Mongoose backend. Its documents are modelled as records, its
  collections as lists or maps, and every \<^verbatim>\<open>throw\<close> as a value of the type
  \<open>error\<close>. A request handler is a function from the database before the request to
  its outcome and the database after it, with one request running at a time;
  \<^verbatim>\<open>addToCart\<close>, whose lock is there for requests that overlap, is modelled step by step
  instead, from one \<^verbatim>\<open>await\<close> to the next, so that two requests can interleave. A JavaScript
  \<^verbatim>\<open>Number\<close> that counts things (quantities, stock) is an \<open>int\<close>; one that holds
  money is a \<open>rat\<close>, so arithmetic is exact and the rounding of IEEE doubles is not
  part of the model. An ObjectId is a natural number. A Mongoose \<^verbatim>\<open>save()\<close> is
  modelled as running the schema's \<^verbatim>\<open>pre('save')\<close> hook and storing the document; the
  schema validators (\<^verbatim>\<open>min\<close>, \<^verbatim>\<open>required\<close>, \<^verbatim>\<open>enum\<close>) are not modelled: where a route
  validates a field against an enumeration, the field has a datatype of exactly those
  values. Fields that no function below reads or writes are left out of the records
  (the timestamps of a cart, the refund fields and the estimated delivery of an order).

  The errors: \<open>ApiError\<close> carries the HTTP status and the message of
  \<^verbatim>\<open>new ApiError(status, message)\<close>; \<open>CartValidationFailed\<close> is the 400 error of
  \<^verbatim>\<open>createOrder\<close> whose message joins the validation messages; \<open>Error\<close> is a plain
  \<^verbatim>\<open>new Error(message)\<close>; \<open>TypeError\<close> is a property read on \<^verbatim>\<open>null\<close>;
  \<open>DuplicateKey\<close> is the error of an insert that breaks a unique index.
\<close>

type_synonym objectId = nat

datatype validationError =
    ProductNotFound objectId
  | NoLongerAvailable string
  | OnlyUnitsAvailable int string

datatype error =
    ApiError nat string
  | CartValidationFailed "validationError list"
  | Error string
  | TypeError
  | DuplicateKey

section \<open>models/Cart.js\<close>

text \<open>A line of a cart or of an order: the fields the two item schemas share. A cart
  line that is held in memory says in addition how its \<^verbatim>\<open>product\<close> field reads:
  \<open>populated\<close> is true after \<^verbatim>\<open>populate('items.product')\<close> has put the product document in
  the place of the reference, and false for a line as the collection stores it and for
  a line that \<^verbatim>\<open>addItem\<close> has pushed. \<open>product\<close> is the referenced id in both cases.\<close>

record lineItem =
  product :: objectId
  variant :: "objectId option"
  quantity :: int
  price :: rat

record cartItem = lineItem +
  populated :: bool

record cart =
  user :: objectId
  items :: "cartItem list"
  totalAmount :: rat
  totalItems :: int

text \<open>The \<^verbatim>\<open>pre('save')\<close> hook of the cart schema: both totals are recomputed by a
  left-to-right \<^verbatim>\<open>reduce\<close> starting from 0.\<close>

definition cart_save :: "cart \<Rightarrow> cart" where
  "cart_save c =
     c\<lparr>totalItems := foldl (\<lambda>sum item. sum + quantity item) 0 (items c),
       totalAmount := foldl (\<lambda>sum item. sum + price item * of_int (quantity item)) 0 (items c)\<rparr>"

text \<open>\<^verbatim>\<open>Array.prototype.findIndex\<close>; JavaScript's \<open>-1\<close> is \<open>None\<close>.\<close>

fun findIndex :: "('a \<Rightarrow> bool) \<Rightarrow> 'a list \<Rightarrow> nat option" where
  "findIndex P [] = None"
| "findIndex P (x # xs) =
     (if P x then Some 0 else map_option Suc (findIndex P xs))"

text \<open>The predicate shared by \<^verbatim>\<open>addItem\<close>, \<^verbatim>\<open>updateItem\<close> and \<^verbatim>\<open>removeItem\<close>:
  \<^verbatim>\<open>item.product.toString() === productId.toString() &&
    (!variantId || item.variant?.toString() === variantId.toString())\<close>.
  On an unpopulated line \<^verbatim>\<open>item.product.toString()\<close> is the id's string, and the first
  conjunct compares the ids. On a populated line \<^verbatim>\<open>item.product\<close> is a document, and
  \<^verbatim>\<open>toString()\<close> of a document is the printed form of the whole document, which is
  never the string of an id: the conjunct is false. (Where the referenced product no
  longer exists, \<^verbatim>\<open>populate\<close> leaves \<^verbatim>\<open>null\<close> and the predicate raises a TypeError;
  \<^verbatim>\<open>addToCart\<close> below, which hands \<^verbatim>\<open>addItem\<close> a populated cart, has that branch.)\<close>

definition itemMatches :: "objectId \<Rightarrow> objectId option \<Rightarrow> cartItem \<Rightarrow> bool" where
  "itemMatches productId variantId item \<longleftrightarrow>
     (\<not> populated item \<and> product item = productId) \<and>
     (variantId = None \<or> variant item = variantId)"

definition addItem :: "cart \<Rightarrow> objectId \<Rightarrow> int \<Rightarrow> rat \<Rightarrow> objectId option \<Rightarrow> cart" where
  "addItem c productId qty pr variantId =
     (case findIndex (itemMatches productId variantId) (items c) of
        Some existingItemIndex \<Rightarrow>
          cart_save (c\<lparr>items := (items c)[existingItemIndex :=
            (items c ! existingItemIndex)
              \<lparr>quantity := quantity (items c ! existingItemIndex) + qty, price := pr\<rparr>]\<rparr>)
      | None \<Rightarrow>
          cart_save (c\<lparr>items := items c @
            [\<lparr>product = productId, variant = variantId, quantity = qty, price = pr,
              populated = False\<rparr>]\<rparr>))"

definition updateItem :: "cart \<Rightarrow> objectId \<Rightarrow> int \<Rightarrow> objectId option \<Rightarrow> error + cart" where
  "updateItem c productId qty variantId =
     (case findIndex (itemMatches productId variantId) (items c) of
        None \<Rightarrow> Inl (Error ''Item not found in cart'')
      | Some itemIndex \<Rightarrow>
          if qty \<le> 0
          then Inr (cart_save (c\<lparr>items := take itemIndex (items c) @ drop (Suc itemIndex) (items c)\<rparr>))
          else Inr (cart_save (c\<lparr>items := (items c)[itemIndex :=
                 (items c ! itemIndex)\<lparr>quantity := qty\<rparr>]\<rparr>)))"

definition removeItem :: "cart \<Rightarrow> objectId \<Rightarrow> objectId option \<Rightarrow> cart" where
  "removeItem c productId variantId =
     cart_save (c\<lparr>items := filter (\<lambda>item. \<not> itemMatches productId variantId item) (items c)\<rparr>)"

definition clearCart :: "cart \<Rightarrow> cart" where
  "clearCart c = cart_save (c\<lparr>items := []\<rparr>)"

definition isEmpty :: "cart \<Rightarrow> bool" where
  "isEmpty c \<longleftrightarrow> length (items c) = 0"

text \<open>The invariant of the data model: the stored totals are the sums over the lines.\<close>

definition totalsConsistent :: "cart \<Rightarrow> bool" where
  "totalsConsistent c \<longleftrightarrow>
     totalItems c = (\<Sum>item\<leftarrow>items c. quantity item) \<and>
     totalAmount c = (\<Sum>item\<leftarrow>items c. of_int (quantity item) * price item)"

section \<open>models/Product.js\<close>

record productDoc =
  name :: string
  sku :: string
  images :: "string list"
  productPrice :: rat
  salePrice :: "rat option"
  stock :: int
  isActive :: bool

text \<open>The Product collection, keyed by \<^verbatim>\<open>_id\<close>. Mongoose's \<^verbatim>\<open>populate\<close> assigns one
  document per product id, so two lines that reference the same product read and write
  the same document: the map is both the collection and the populated documents.\<close>

type_synonym products = "objectId \<rightharpoonup> productDoc"

definition reserveStock :: "productDoc \<Rightarrow> int \<Rightarrow> error + productDoc" where
  "reserveStock p qty =
     (if stock p < qty then Inl (Error ''Insufficient stock'')
      else Inr (p\<lparr>stock := stock p - qty\<rparr>))"

definition releaseStock :: "productDoc \<Rightarrow> int \<Rightarrow> productDoc" where
  "releaseStock p qty = p\<lparr>stock := stock p + qty\<rparr>"

text \<open>\<^verbatim>\<open>validateItems\<close> of the cart schema: one message per offending line, in line order;
  \<^verbatim>\<open>continue\<close> skips the later checks of a line.\<close>

fun validateItems :: "products \<Rightarrow> cartItem list \<Rightarrow> validationError list" where
  "validateItems ps [] = []"
| "validateItems ps (item # rest) =
     (case ps (product item) of
        None \<Rightarrow> ProductNotFound (product item) # validateItems ps rest
      | Some p \<Rightarrow>
          if \<not> isActive p then NoLongerAvailable (name p) # validateItems ps rest
          else if stock p < quantity item
            then OnlyUnitsAvailable (stock p) (name p) # validateItems ps rest
          else validateItems ps rest)"

section \<open>Strings and dates\<close>

text \<open>\<^verbatim>\<open>String(n)\<close> for a non-negative integer and for an integer, \<^verbatim>\<open>padStart\<close>, \<^verbatim>\<open>slice(-k)\<close> and
  \<^verbatim>\<open>toUpperCase\<close>, which maps the letters a to z to A to Z and keeps every other
  character (strings are ASCII here).\<close>

fun showNat :: "nat \<Rightarrow> string" where
  "showNat n =
     (if n < 10 then [''0123456789'' ! n]
      else showNat (n div 10) @ [''0123456789'' ! (n mod 10)])"

declare showNat.simps [simp del]

definition showInt :: "int \<Rightarrow> string" where
  "showInt i = (if i < 0 then CHR ''-'' # showNat (nat (- i)) else showNat (nat i))"

definition padStart :: "nat \<Rightarrow> char \<Rightarrow> string \<Rightarrow> string" where
  "padStart targetLength c s = replicate (targetLength - length s) c @ s"

definition sliceLast :: "nat \<Rightarrow> string \<Rightarrow> string" where
  "sliceLast k s = drop (length s - k) s"

definition toUpperCase :: "string \<Rightarrow> string" where
  "toUpperCase s =
     map (\<lambda>c. case map_of (zip ''abcdefghijklmnopqrstuvwxyz'' ''ABCDEFGHIJKLMNOPQRSTUVWXYZ'') c of
                None \<Rightarrow> c
              | Some u \<Rightarrow> u) s"

text \<open>A \<^verbatim>\<open>Date\<close> is its local calendar reading (year, month counted from 0, day of the
  month, milliseconds since midnight), ordered lexicographically, which is the order of
  time. \<^verbatim>\<open>new Date(y, m, d + 1)\<close> is kept as the tuple \<open>(y, m, d + 1, 0)\<close>: it is used
  only as an exclusive upper bound, and every instant of a later day compares above it.
  The clock of a request gives the current date and \<^verbatim>\<open>Date.now()\<close>.\<close>

type_synonym date = "nat \<times> nat \<times> nat \<times> nat"

record clock =
  epoch :: nat
  year :: nat
  month :: nat
  dayOfMonth :: nat
  msOfDay :: nat

definition today :: "clock \<Rightarrow> date" where
  "today clk = (year clk, month clk, dayOfMonth clk, msOfDay clk)"

section \<open>models/Order.js\<close>

text \<open>The enumerations of the order schema, and the order document with its embedded
  documents. Field names are global in a theory, so a field whose name another record
  already uses carries a prefix (\<open>pay_status\<close> for \<^verbatim>\<open>payment.status\<close>,
  \<open>entry_status\<close> for the status of a history entry, \<open>orderUser\<close> and
  \<open>orderItems\<close> for \<^verbatim>\<open>order.user\<close> and \<^verbatim>\<open>order.items\<close>, \<open>oid\<close> for \<^verbatim>\<open>_id\<close>). An order
  line has the fields of a cart line and two more. \<open>isNew\<close> is Mongoose's flag of a
  document that was never saved.\<close>

datatype orderStatus =
  Pending | Confirmed | Processing | Shipped | OutForDelivery | Delivered | Cancelled | Refunded

datatype paymentStatus =
  PayPending | PayProcessing | PaySucceeded | PayFailed | PayCancelled | PayRefunded

datatype paymentMethod = Stripe | Paypal | CashOnDelivery

datatype shippingMethod = Standard | Express | Overnight | Pickup

datatype couponType = Percentage | Fixed

record snapshot =
  snap_name :: string
  snap_sku :: string
  snap_image :: "string option"

record orderItem = lineItem +
  total :: rat
  productSnapshot :: snapshot

record statusEntry =
  entry_status :: orderStatus
  entry_note :: string
  updatedBy :: "objectId option"
  timestamp :: date

record paymentInfo =
  pay_method :: paymentMethod
  pay_status :: paymentStatus
  paymentIntentId :: "string option"
  pay_amount :: rat

record pricingInfo =
  subtotal :: rat
  pr_shipping :: rat
  tax :: rat
  discount :: rat
  pr_total :: rat

record shippingInfo =
  ship_method :: shippingMethod
  cost :: rat
  actualDelivery :: "date option"
  trackingNumber :: "string option"
  carrier :: "string option"

record couponInfo =
  code :: string
  coupon_discount :: rat
  coupon_type :: couponType

record order =
  oid :: objectId
  isNew :: bool
  orderNumber :: string
  orderUser :: objectId
  orderItems :: "orderItem list"
  status :: orderStatus
  statusHistory :: "statusEntry list"
  shippingAddress :: string
  billingAddress :: string
  payment :: paymentInfo
  pricing :: pricingInfo
  shipping :: shippingInfo
  coupon :: "couponInfo option"
  order_notes :: "string option"
  internalNotes :: "string option"
  cancelledAt :: "date option"
  cancelReason :: "string option"
  createdAt :: "date option"

text \<open>The Order collection, in insertion order. \<^verbatim>\<open>countDocuments\<close> with the range filter
  on \<^verbatim>\<open>createdAt\<close> that the \<^verbatim>\<open>pre('save')\<close> hook issues.\<close>

definition countDocuments :: "order list \<Rightarrow> date \<Rightarrow> date \<Rightarrow> nat" where
  "countDocuments coll startOfDay endOfDay =
     length (filter (\<lambda>d. case createdAt d of
                            None \<Rightarrow> False
                          | Some t \<Rightarrow> startOfDay \<le> t \<and> t < endOfDay) coll)"

text \<open>The \<^verbatim>\<open>pre('save')\<close> hook of the order schema.\<close>

definition order_presave :: "clock \<Rightarrow> order list \<Rightarrow> order \<Rightarrow> order" where
  "order_presave clk coll d =
     (if isNew d then
        let yearS = showNat (year clk);
            monthS = padStart 2 CHR ''0'' (showNat (month clk + 1));
            dayS = padStart 2 CHR ''0'' (showNat (dayOfMonth clk));
            startOfDay = (year clk, month clk, dayOfMonth clk, 0);
            endOfDay = (year clk, month clk, dayOfMonth clk + 1, 0);
            count = countDocuments coll startOfDay endOfDay
        in d\<lparr>orderNumber := ''ORD-'' @ yearS @ monthS @ dayS @ ''-'' @
                 padStart 4 CHR ''0'' (showNat (count + 1))\<rparr>
      else d)"

text \<open>\<^verbatim>\<open>order.save()\<close>: the hook runs, a new document gets its \<^verbatim>\<open>createdAt\<close> and is
  inserted, an existing one replaces the stored document with the same \<^verbatim>\<open>_id\<close>. The
  result is the collection and the document as the caller holds it afterwards.\<close>

definition order_save :: "clock \<Rightarrow> order list \<Rightarrow> order \<Rightarrow> order list \<times> order" where
  "order_save clk coll d =
     (let d1 = order_presave clk coll d in
      if isNew d1 then
        (let d2 = d1\<lparr>createdAt := Some (today clk), isNew := False\<rparr> in (coll @ [d2], d2))
      else (map (\<lambda>x. if oid x = oid d1 then d1 else x) coll, d1))"

text \<open>\<^verbatim>\<open>addStatusHistory(status, note = '', updatedBy = null)\<close>: one entry is pushed and
  the status is set, whatever the current status is. A caller that leaves out the note
  or the user passes the defaults.\<close>

definition addStatusHistory ::
  "clock \<Rightarrow> orderStatus \<Rightarrow> string \<Rightarrow> objectId option \<Rightarrow> order \<Rightarrow> order" where
  "addStatusHistory clk st nt actor d =
     d\<lparr>statusHistory := statusHistory d @
          [\<lparr>entry_status = st, entry_note = nt, updatedBy = actor, timestamp = today clk\<rparr>],
       status := st\<rparr>"

definition canBeCancelled :: "order \<Rightarrow> bool" where
  "canBeCancelled d \<longleftrightarrow> status d \<in> set [Pending, Confirmed, Processing]"

definition canBeRefunded :: "order \<Rightarrow> bool" where
  "canBeRefunded d \<longleftrightarrow> status d \<in> set [Delivered] \<and> pay_status (payment d) = PaySucceeded"

text \<open>\<^verbatim>\<open>toObject()\<close> gives the document's defined fields as a plain object, here an
  association list from keys to JSON values; an undefined field has no key.
  \<^verbatim>\<open>toJSON\<close> deletes one key of it.\<close>

datatype json =
    JNull
  | JBool bool
  | JNum rat
  | JStr string
  | JArr "json list"
  | JObj "(string \<times> json) list"

definition optField :: "string \<Rightarrow> ('a \<Rightarrow> json) \<Rightarrow> 'a option \<Rightarrow> (string \<times> json) list" where
  "optField k f v = (case v of None \<Rightarrow> [] | Some x \<Rightarrow> [(k, f x)])"

definition dateJson :: "date \<Rightarrow> json" where
  "dateJson t =
     (case t of (y, m, d, ms) \<Rightarrow> JArr [JNum (of_nat y), JNum (of_nat m), JNum (of_nat d), JNum (of_nat ms)])"

definition statusName :: "orderStatus \<Rightarrow> string" where
  "statusName st =
     (case st of
        Pending \<Rightarrow> ''pending'' | Confirmed \<Rightarrow> ''confirmed'' | Processing \<Rightarrow> ''processing''
      | Shipped \<Rightarrow> ''shipped'' | OutForDelivery \<Rightarrow> ''out_for_delivery''
      | Delivered \<Rightarrow> ''delivered'' | Cancelled \<Rightarrow> ''cancelled'' | Refunded \<Rightarrow> ''refunded'')"

definition paymentStatusName :: "paymentStatus \<Rightarrow> string" where
  "paymentStatusName st =
     (case st of
        PayPending \<Rightarrow> ''pending'' | PayProcessing \<Rightarrow> ''processing''
      | PaySucceeded \<Rightarrow> ''succeeded'' | PayFailed \<Rightarrow> ''failed''
      | PayCancelled \<Rightarrow> ''cancelled'' | PayRefunded \<Rightarrow> ''refunded'')"

definition paymentMethodName :: "paymentMethod \<Rightarrow> string" where
  "paymentMethodName m =
     (case m of Stripe \<Rightarrow> ''stripe'' | Paypal \<Rightarrow> ''paypal'' | CashOnDelivery \<Rightarrow> ''cash_on_delivery'')"

definition shippingMethodName :: "shippingMethod \<Rightarrow> string" where
  "shippingMethodName m =
     (case m of Standard \<Rightarrow> ''standard'' | Express \<Rightarrow> ''express''
      | Overnight \<Rightarrow> ''overnight'' | Pickup \<Rightarrow> ''pickup'')"

definition couponTypeName :: "couponType \<Rightarrow> string" where
  "couponTypeName t = (case t of Percentage \<Rightarrow> ''percentage'' | Fixed \<Rightarrow> ''fixed'')"

definition itemJson :: "orderItem \<Rightarrow> json" where
  "itemJson item =
     JObj ([(''product'', JNum (of_nat (product item)))] @
           optField ''variant'' (\<lambda>v. JNum (of_nat v)) (variant item) @
           [(''quantity'', JNum (of_int (quantity item))),
            (''price'', JNum (price item)),
            (''total'', JNum (total item)),
            (''productSnapshot'',
               JObj ([(''name'', JStr (snap_name (productSnapshot item))),
                      (''sku'', JStr (snap_sku (productSnapshot item)))] @
                     optField ''image'' JStr (snap_image (productSnapshot item))))])"

definition entryJson :: "statusEntry \<Rightarrow> json" where
  "entryJson e =
     JObj ([(''status'', JStr (statusName (entry_status e))),
            (''note'', JStr (entry_note e)),
            (''updatedBy'', case updatedBy e of None \<Rightarrow> JNull | Some u \<Rightarrow> JNum (of_nat u)),
            (''timestamp'', dateJson (timestamp e))])"

definition toObject :: "order \<Rightarrow> (string \<times> json) list" where
  "toObject d =
     [(''_id'', JNum (of_nat (oid d))),
      (''orderNumber'', JStr (orderNumber d)),
      (''user'', JNum (of_nat (orderUser d))),
      (''items'', JArr (map itemJson (orderItems d))),
      (''status'', JStr (statusName (status d))),
      (''statusHistory'', JArr (map entryJson (statusHistory d))),
      (''shippingAddress'', JStr (shippingAddress d)),
      (''billingAddress'', JStr (billingAddress d)),
      (''payment'',
         JObj ([(''method'', JStr (paymentMethodName (pay_method (payment d)))),
                (''status'', JStr (paymentStatusName (pay_status (payment d))))] @
               optField ''paymentIntentId'' JStr (paymentIntentId (payment d)) @
               [(''amount'', JNum (pay_amount (payment d)))])),
      (''pricing'',
         JObj [(''subtotal'', JNum (subtotal (pricing d))),
               (''shipping'', JNum (pr_shipping (pricing d))),
               (''tax'', JNum (tax (pricing d))),
               (''discount'', JNum (discount (pricing d))),
               (''total'', JNum (pr_total (pricing d)))]),
      (''shipping'',
         JObj ([(''method'', JStr (shippingMethodName (ship_method (shipping d)))),
                (''cost'', JNum (cost (shipping d)))] @
               optField ''actualDelivery'' dateJson (actualDelivery (shipping d)) @
               optField ''trackingNumber'' JStr (trackingNumber (shipping d)) @
               optField ''carrier'' JStr (carrier (shipping d))))] @
     optField ''coupon''
       (\<lambda>c. JObj [(''code'', JStr (code c)), (''discount'', JNum (coupon_discount c)),
                   (''type'', JStr (couponTypeName (coupon_type c)))]) (coupon d) @
     optField ''notes'' JStr (order_notes d) @
     optField ''internalNotes'' JStr (internalNotes d) @
     optField ''cancelledAt'' dateJson (cancelledAt d) @
     optField ''cancelReason'' JStr (cancelReason d) @
     optField ''createdAt'' dateJson (createdAt d)"

definition toJSON :: "order \<Rightarrow> (string \<times> json) list" where
  "toJSON d = filter (\<lambda>kv. fst kv \<noteq> ''internalNotes'') (toObject d)"

section \<open>The database and the payment service\<close>

record db =
  products :: products
  orders :: "order list"
  carts :: "objectId \<rightharpoonup> cart"

datatype userRole = UserRole | SellerRole | AdminRole

text \<open>\<^verbatim>\<open>req.user\<close>, as the authentication middleware sets it:
  \<^verbatim>\<open>req.user = { userId: user._id, role: user.role }\<close>. The \<^verbatim>\<open>userId\<close> is the ObjectId of
  the user document, not its string.\<close>

record requester =
  userId :: objectId
  role :: userRole

text \<open>The values that the handlers compare with \<^verbatim>\<open>===\<close> and \<^verbatim>\<open>!==\<close>: strings, and
  ObjectIds, which are objects. Two strings are strictly equal when they have the same
  characters. An object is strictly equal to no string, and to another object only when
  the two are the same object, which no comparison below meets. \<open>idString\<close> is
  \<^verbatim>\<open>toString()\<close> of an ObjectId.\<close>

datatype jsValue = JsString string | JsObjectId objectId

fun strictEquals :: "jsValue \<Rightarrow> jsValue \<Rightarrow> bool" where
  "strictEquals (JsString a) (JsString b) = (a = b)"
| "strictEquals (JsString a) (JsObjectId j) = False"
| "strictEquals (JsObjectId i) v = False"

definition idString :: "objectId \<Rightarrow> string" where
  "idString i = showNat i"

text \<open>Queries. A document that a query returns is hydrated from the store: it is not
  new, whatever the flag of the stored record says.\<close>

definition hydrate :: "order \<Rightarrow> order" where
  "hydrate d = d\<lparr>isNew := False\<rparr>"

definition findById :: "order list \<Rightarrow> objectId \<Rightarrow> order option" where
  "findById coll i = map_option hydrate (find (\<lambda>d. oid d = i) coll)"

definition findByIntent :: "order list \<Rightarrow> string \<Rightarrow> order option" where
  "findByIntent coll intentId =
     map_option hydrate (find (\<lambda>d. paymentIntentId (payment d) = Some intentId) coll)"

text \<open>\<^verbatim>\<open>PaymentService.createPaymentIntent\<close>. The gateway is the external call
  \<^verbatim>\<open>stripe.paymentIntents.create\<close>: it answers with an intent id or fails.\<close>

definition createPaymentIntent ::
  "(rat \<Rightarrow> string option) \<Rightarrow> clock \<Rightarrow> order list \<Rightarrow> order \<Rightarrow> error + (string \<times> order list \<times> order)" where
  "createPaymentIntent gateway clk coll d =
     (case gateway (pr_total (pricing d)) of
        None \<Rightarrow> Inl (ApiError 500 ''Payment setup failed'')
      | Some intentId \<Rightarrow>
          (let d1 = d\<lparr>payment := (payment d)\<lparr>paymentIntentId := Some intentId,
                                             pay_status := PayProcessing\<rparr>\<rparr>;
               saved = order_save clk coll d1
           in Inr (intentId, fst saved, snd saved)))"

text \<open>\<^verbatim>\<open>PaymentService.handlePaymentFailure\<close>: an unknown intent raises inside the
  \<^verbatim>\<open>try\<close> and is only logged.\<close>

definition handlePaymentFailure :: "clock \<Rightarrow> string \<Rightarrow> db \<Rightarrow> db" where
  "handlePaymentFailure clk intentId s =
     (case findByIntent (orders s) intentId of
        None \<Rightarrow> s
      | Some d \<Rightarrow>
          (let d1 = d\<lparr>payment := (payment d)\<lparr>pay_status := PayFailed\<rparr>\<rparr>;
               d2 = addStatusHistory clk Cancelled ''Payment failed'' None d1
           in s\<lparr>orders := fst (order_save clk (orders s) d2)\<rparr>))"

section \<open>controllers/cart.controller.js: applyCoupon\<close>

record couponDef =
  ctype :: couponType
  cvalue :: rat
  minAmount :: nat

text \<open>The \<^verbatim>\<open>mockCoupons\<close> table of \<^verbatim>\<open>applyCoupon\<close>.\<close>

definition cartMockCoupons :: "string \<Rightarrow> couponDef option" where
  "cartMockCoupons k =
     (if k = ''SAVE10'' then Some \<lparr>ctype = Percentage, cvalue = 10, minAmount = 50\<rparr>
      else if k = ''FLAT20'' then Some \<lparr>ctype = Fixed, cvalue = 20, minAmount = 100\<rparr>
      else None)"

record couponResult =
  res_couponCode :: string
  res_discount :: rat
  originalTotal :: rat
  discountedTotal :: rat

definition applyCoupon :: "(objectId \<rightharpoonup> cart) \<Rightarrow> objectId \<Rightarrow> string \<Rightarrow> error + couponResult" where
  "applyCoupon cs uid couponCode =
     (case cs uid of
        None \<Rightarrow> Inl (ApiError 404 ''Cart not found'')
      | Some c \<Rightarrow>
          (case cartMockCoupons (toUpperCase couponCode) of
             None \<Rightarrow> Inl (ApiError 400 ''Invalid coupon code'')
           | Some cp \<Rightarrow>
               if totalAmount c < of_nat (minAmount cp)
               then Inl (ApiError 400
                      (''Minimum order amount of $'' @ showNat (minAmount cp) @ '' required''))
               else
                 (let disc = (if ctype cp = Percentage
                              then (totalAmount c * cvalue cp) / 100 else cvalue cp)
                  in Inr \<lparr>res_couponCode = couponCode, res_discount = disc,
                           originalTotal = totalAmount c,
                           discountedTotal = max 0 (totalAmount c - disc)\<rparr>)))"

section \<open>controllers/cart.controller.js: \<^verbatim>\<open>addToCart\<close>\<close>

text \<open>An \<^verbatim>\<open>addToCart\<close> request: the authenticated user, the body, and what \<^verbatim>\<open>Date.now()\<close>
  reads when the handler computes its lock value. Two requests of the same millisecond
  have the same lock value.\<close>

record cartRequest =
  auth_userId :: objectId
  body_productId :: objectId
  body_quantity :: int
  body_variantId :: "objectId option"
  dateNow :: nat

definition lockKey :: "cartRequest \<Rightarrow> string" where
  "lockKey r = ''cart_lock:'' @ idString (auth_userId r) @ '':'' @ idString (body_productId r)"

definition lockValue :: "cartRequest \<Rightarrow> string" where
  "lockValue r = showNat (dateNow r)"

text \<open>\<^verbatim>\<open>product.salePrice && product.salePrice < product.price ? product.salePrice : product.price\<close>;
  a sale price that is absent or 0 is falsy.\<close>

definition priceFor :: "productDoc \<Rightarrow> rat" where
  "priceFor p =
     (case salePrice p of
        None \<Rightarrow> productPrice p
      | Some sp \<Rightarrow> if sp \<noteq> 0 \<and> sp < productPrice p then sp else productPrice p)"

text \<open>\<^verbatim>\<open>populate('items.product')\<close> on a cart document puts the product documents in the
  place of the references of all lines; the collection stores the references.\<close>

definition populate :: "cart \<Rightarrow> cart" where
  "populate c = c\<lparr>items := map (\<lambda>item. item\<lparr>populated := True\<rparr>) (items c)\<rparr>"

definition depopulate :: "cart \<Rightarrow> cart" where
  "depopulate c = c\<lparr>items := map (\<lambda>item. item\<lparr>populated := False\<rparr>) (items c)\<rparr>"

text \<open>The server while requests are served: the database, the lock store, whether
  \<^verbatim>\<open>getRedisClient()\<close> has an open client to return, and for each of two requests in flight
  the point its handler has reached.

  Modelled from the spec: the lock store and its three commands, since the client
  library behind \<^verbatim>\<open>redis.set\<close>, \<^verbatim>\<open>redis.get\<close> and \<^verbatim>\<open>redis.del\<close> is not part of the
  repository. The store maps a key to the value it holds. \<^verbatim>\<open>set(key, value, 'PX', 5000, 'NX')\<close>
  is the atomic set-if-absent with expiry: it stores the value and succeeds when the
  key holds no value, and fails when the key holds any value. \<^verbatim>\<open>get\<close> reads the value,
  \<^verbatim>\<open>del\<close> removes it, and the expiry removes it after five seconds, which is the event
  \<open>Expire\<close> below.\<close>

datatype handler = H1 | H2

text \<open>A handler runs from one \<^verbatim>\<open>await\<close> to the next without interruption; between two of
  them the other handler may run. The points of \<^verbatim>\<open>addToCart\<close>, named after the operation
  awaited next, with what the handler holds in its variables:
  \<^verbatim>\<open>Product.findById\<close>; \<^verbatim>\<open>redis.set\<close>; the query of \<^verbatim>\<open>getOrCreateCart\<close>; the save of the cart
  that \<^verbatim>\<open>getOrCreateCart\<close> creates; the save inside \<^verbatim>\<open>cart.addItem\<close>; \<^verbatim>\<open>cart.populate\<close>; and,
  in the \<^verbatim>\<open>finally\<close> block, \<^verbatim>\<open>redis.get\<close> and \<^verbatim>\<open>redis.del\<close>, with the response or the
  error that the request ends with.\<close>

datatype control =
    Validate
  | Acquire productDoc
  | GetCart productDoc
  | CreateCart productDoc
  | SaveCart productDoc cart
  | PopulateCart cart
  | ReleaseGet "error + cart"
  | ReleaseDel "error + cart"
  | Finished "error + cart"

record server = db +
  locks :: "string \<rightharpoonup> string"
  redisOpen :: bool
  pc :: "handler \<Rightarrow> control"

text \<open>One step of the handler of request \<open>r\<close> from the point \<open>pt\<close>: the awaited operation
  takes effect and the handler runs on to its next \<^verbatim>\<open>await\<close>.
  \<^item> The three checks of the product throw before the \<^verbatim>\<open>try\<close>, so the \<^verbatim>\<open>finally\<close> block
    does not run for them. Without an open client \<^verbatim>\<open>redis\<close> is \<^verbatim>\<open>null\<close>, and both
    \<^verbatim>\<open>redis.set\<close> and the \<^verbatim>\<open>redis.get\<close> of the \<^verbatim>\<open>finally\<close> block raise a TypeError.
  \<^item> A refused \<^verbatim>\<open>redis.set\<close> throws the 409 inside the \<^verbatim>\<open>try\<close>, so the \<^verbatim>\<open>finally\<close> block
    runs for it.
  \<^item> \<^verbatim>\<open>getOrCreateCart\<close> returns the stored cart populated, and \<^verbatim>\<open>cart.addItem\<close> runs its
    \<^verbatim>\<open>findIndex\<close> at once: every loaded line is populated, none matches, and a line
    whose product no longer exists is \<^verbatim>\<open>null\<close> where the predicate calls
    \<^verbatim>\<open>toString()\<close>, a TypeError. The unique index on \<^verbatim>\<open>user\<close> refuses the save of a
    second cart for a user.
  \<^item> The save inside \<^verbatim>\<open>addItem\<close> writes the document as the handler holds it, with
    references in the place of the populated documents.
  \<^item> The \<^verbatim>\<open>finally\<close> block deletes the key when it holds the handler's own lock value.\<close>

definition handlerStep :: "cartRequest \<Rightarrow> control \<Rightarrow> server \<Rightarrow> control \<times> server" where
  "handlerStep r pt s =
     (case pt of
        Validate \<Rightarrow>
          (case products s (body_productId r) of
             None \<Rightarrow> (Finished (Inl (ApiError 404 ''Product not found'')), s)
           | Some p \<Rightarrow>
               if \<not> isActive p
                 then (Finished (Inl (ApiError 400 ''Product is not available'')), s)
               else if stock p < body_quantity r
                 then (Finished (Inl (ApiError 400
                         (''Only '' @ showInt (stock p) @ '' units available''))), s)
               else if \<not> redisOpen s then (Finished (Inl TypeError), s)
               else (Acquire p, s))
      | Acquire p \<Rightarrow>
          (case locks s (lockKey r) of
             None \<Rightarrow> (GetCart p, s\<lparr>locks := (locks s)(lockKey r \<mapsto> lockValue r)\<rparr>)
           | Some held \<Rightarrow>
               (ReleaseGet (Inl (ApiError 409 ''Cart is being updated, please try again'')), s))
      | GetCart p \<Rightarrow>
          (case carts s (auth_userId r) of
             None \<Rightarrow> (CreateCart p, s)
           | Some c \<Rightarrow>
               if \<exists>item\<in>set (items c). products s (product item) = None
                 then (ReleaseGet (Inl TypeError), s)
               else (SaveCart p (populate c), s))
      | CreateCart p \<Rightarrow>
          (case carts s (auth_userId r) of
             Some other \<Rightarrow> (ReleaseGet (Inl DuplicateKey), s)
           | None \<Rightarrow>
               (let c = cart_save \<lparr>user = auth_userId r, items = [], totalAmount = 0,
                                    totalItems = 0\<rparr>
                in (SaveCart p c, s\<lparr>carts := (carts s)(auth_userId r \<mapsto> c)\<rparr>)))
      | SaveCart p c \<Rightarrow>
          (let c' = addItem c (body_productId r) (body_quantity r) (priceFor p) (body_variantId r)
           in (PopulateCart c', s\<lparr>carts := (carts s)(auth_userId r \<mapsto> depopulate c')\<rparr>))
      | PopulateCart c \<Rightarrow> (ReleaseGet (Inr (populate c)), s)
      | ReleaseGet res \<Rightarrow>
          if locks s (lockKey r) = Some (lockValue r) then (ReleaseDel res, s)
          else (Finished res, s)
      | ReleaseDel res \<Rightarrow> (Finished res, s\<lparr>locks := (locks s)(lockKey r := None)\<rparr>)
      | Finished res \<Rightarrow> (Finished res, s))"

text \<open>What can happen next on the server: one of the two handlers takes its step, or a
  key of the lock store expires. A schedule is a list of such events, and \<open>run\<close>
  replays it.\<close>

datatype event = Run handler | Expire string

definition step :: "(handler \<Rightarrow> cartRequest) \<Rightarrow> event \<Rightarrow> server \<Rightarrow> server" where
  "step reqs e s =
     (case e of
        Run h \<Rightarrow>
          (let next = handlerStep (reqs h) (pc s h) s
           in (snd next)\<lparr>pc := (pc (snd next))(h := fst next)\<rparr>)
      | Expire key \<Rightarrow> s\<lparr>locks := (locks s)(key := None)\<rparr>)"

definition run :: "(handler \<Rightarrow> cartRequest) \<Rightarrow> event list \<Rightarrow> server \<Rightarrow> server" where
  "run reqs evs s = foldl (\<lambda>t e. step reqs e t) s evs"

section \<open>controllers/order.controller.js\<close>

record orderRequest =
  req_shippingAddress :: string
  req_billingAddress :: "string option"
  req_paymentMethod :: paymentMethod
  req_shippingMethod :: "shippingMethod option"
  req_couponCode :: "string option"
  req_notes :: "string option"

text \<open>The parts of \<^verbatim>\<open>createOrder\<close>, in the order of the source. The shipping table is
  read with \<^verbatim>\<open>shippingCosts[shippingMethod] || 5.99\<close>, so a cost of 0 falls through to
  5.99; \<^verbatim>\<open>shippingMethod\<close> defaults to \<^verbatim>\<open>'standard'\<close>.\<close>

definition shippingCosts :: "shippingMethod \<Rightarrow> rat" where
  "shippingCosts m =
     (case m of Standard \<Rightarrow> 599 / 100 | Express \<Rightarrow> 1299 / 100
      | Overnight \<Rightarrow> 2499 / 100 | Pickup \<Rightarrow> 0)"

definition shippingCostOf :: "shippingMethod \<Rightarrow> rat" where
  "shippingCostOf m = (if shippingCosts m = 0 then 599 / 100 else shippingCosts m)"

text \<open>The \<^verbatim>\<open>mockCoupons\<close> table of \<^verbatim>\<open>createOrder\<close> (type and value only) and the discount
  it gives; an absent or empty code, or one not in the table, leaves the discount at 0
  and the coupon at \<^verbatim>\<open>null\<close>.\<close>

definition orderMockCoupons :: "string \<Rightarrow> (couponType \<times> rat) option" where
  "orderMockCoupons k =
     (if k = ''SAVE10'' then Some (Percentage, 10)
      else if k = ''FLAT20'' then Some (Fixed, 20)
      else None)"

definition orderDiscount :: "string option \<Rightarrow> rat \<Rightarrow> rat \<times> couponInfo option" where
  "orderDiscount couponCode sub =
     (case couponCode of
        None \<Rightarrow> (0, None)
      | Some cc \<Rightarrow>
          if cc = [] then (0, None)
          else
            (case orderMockCoupons (toUpperCase cc) of
               None \<Rightarrow> (0, None)
             | Some appliedCoupon \<Rightarrow>
                 (let disc = (if fst appliedCoupon = Percentage
                              then (sub * snd appliedCoupon) / 100 else snd appliedCoupon)
                  in (disc, Some \<lparr>code = cc, coupon_discount = disc,
                                   coupon_type = fst appliedCoupon\<rparr>))))"

text \<open>\<^verbatim>\<open>cart.items.map(...)\<close>: the snapshot of every line. A line whose populated product
  is \<^verbatim>\<open>null\<close> raises a TypeError at \<^verbatim>\<open>item.product._id\<close>.\<close>

fun snapshotItems :: "products \<Rightarrow> cartItem list \<Rightarrow> orderItem list option" where
  "snapshotItems ps [] = Some []"
| "snapshotItems ps (item # rest) =
     (case ps (product item) of
        None \<Rightarrow> None
      | Some p \<Rightarrow>
          map_option
            (\<lambda>more. \<lparr>product = product item, variant = variant item,
                      quantity = quantity item, price = price item,
                      total = price item * of_int (quantity item),
                      productSnapshot =
                        \<lparr>snap_name = name p, snap_sku = sku p,
                         snap_image = (case images p of [] \<Rightarrow> None | u # _ \<Rightarrow> Some u)\<rparr>\<rparr> # more)
            (snapshotItems ps rest))"

text \<open>The loop \<^verbatim>\<open>for (const item of cart.items) await item.product.reserveStock(item.quantity)\<close>:
  it stops at the first line that raises. The result is the error, if any, and the
  Product collection as the loop leaves it.\<close>

fun reserveItems :: "products \<Rightarrow> ('a lineItem_scheme) list \<Rightarrow> error option \<times> products" where
  "reserveItems ps [] = (None, ps)"
| "reserveItems ps (item # rest) =
     (case ps (product item) of
        None \<Rightarrow> (Some TypeError, ps)
      | Some p \<Rightarrow>
          (case reserveStock p (quantity item) of
             Inl e \<Rightarrow> (Some e, ps)
           | Inr p' \<Rightarrow> reserveItems (ps(product item \<mapsto> p')) rest))"

text \<open>The loop of \<^verbatim>\<open>cancelOrder\<close>:
  \<^verbatim>\<open>for (const item of order.items) await item.product.releaseStock(item.quantity)\<close>.\<close>

fun releaseItems :: "products \<Rightarrow> ('a lineItem_scheme) list \<Rightarrow> error option \<times> products" where
  "releaseItems ps [] = (None, ps)"
| "releaseItems ps (item # rest) =
     (case ps (product item) of
        None \<Rightarrow> (Some TypeError, ps)
      | Some p \<Rightarrow> releaseItems (ps(product item \<mapsto> releaseStock p (quantity item))) rest)"

text \<open>\<^verbatim>\<open>new Order({...})\<close> followed by the assignment of the provisional order number and
  the first history entry. The schema defaults give \<^verbatim>\<open>status = 'pending'\<close> and
  \<^verbatim>\<open>payment.status = 'pending'\<close>.\<close>

definition newOrder ::
  "clock \<Rightarrow> objectId \<Rightarrow> objectId \<Rightarrow> orderRequest \<Rightarrow> cart \<Rightarrow> orderItem list \<Rightarrow> order" where
  "newOrder clk newId uid req c its =
     (let shipMethod = (case req_shippingMethod req of None \<Rightarrow> Standard | Some m \<Rightarrow> m);
          shippingCost = shippingCostOf shipMethod;
          taxRate = 8 / 100;
          sub = totalAmount c;
          tx = sub * taxRate;
          dc = orderDiscount (req_couponCode req) sub;
          tot = sub + shippingCost + tx - fst dc;
          d = \<lparr>oid = newId, isNew = True, orderNumber = [],
               orderUser = uid, orderItems = its,
               status = Pending, statusHistory = [],
               shippingAddress = req_shippingAddress req,
               billingAddress = (case req_billingAddress req of
                                   None \<Rightarrow> req_shippingAddress req
                                 | Some b \<Rightarrow> if b = [] then req_shippingAddress req else b),
               payment = \<lparr>pay_method = req_paymentMethod req, pay_status = PayPending,
                          paymentIntentId = None, pay_amount = tot\<rparr>,
               pricing = \<lparr>subtotal = sub, pr_shipping = shippingCost, tax = tx,
                          discount = fst dc, pr_total = tot\<rparr>,
               shipping = \<lparr>ship_method = shipMethod, cost = shippingCost,
                           actualDelivery = None, trackingNumber = None, carrier = None\<rparr>,
               coupon = snd dc,
               order_notes = req_notes req, internalNotes = None,
               cancelledAt = None, cancelReason = None, createdAt = None\<rparr>;
          d1 = d\<lparr>orderNumber := ''ORD-'' @ showNat (year clk) @ sliceLast 6 (showNat (epoch clk))\<rparr>
      in addStatusHistory clk Pending ''Order created'' None d1)"

text \<open>\<^verbatim>\<open>createOrder\<close>. The confirmation e-mail and the socket event change no state of
  the model and are left out, as is \<^verbatim>\<open>shipping.estimatedDelivery\<close>.\<close>

definition createOrder ::
  "(rat \<Rightarrow> string option) \<Rightarrow> clock \<Rightarrow> objectId \<Rightarrow> objectId \<Rightarrow> orderRequest \<Rightarrow> db
     \<Rightarrow> (error + order) \<times> db" where
  "createOrder gateway clk newId uid req s =
     (case carts s uid of
        None \<Rightarrow> (Inl (ApiError 400 ''Cart is empty''), s)
      | Some c \<Rightarrow>
          if isEmpty c then (Inl (ApiError 400 ''Cart is empty''), s)
          else if length (validateItems (products s) (items c)) > 0
            then (Inl (CartValidationFailed (validateItems (products s) (items c))), s)
          else
            (case snapshotItems (products s) (items c) of
               None \<Rightarrow> (Inl TypeError, s)
             | Some its \<Rightarrow>
                 (let saved = order_save clk (orders s) (newOrder clk newId uid req c its);
                      s1 = s\<lparr>orders := fst saved\<rparr>;
                      reserved = reserveItems (products s1) (items c)
                  in case fst reserved of
                       Some e \<Rightarrow> (Inl e, s1\<lparr>products := snd reserved\<rparr>)
                     | None \<Rightarrow>
                         (let s2 = s1\<lparr>products := snd reserved,
                                       carts := (carts s1)(uid \<mapsto> clearCart c)\<rparr>
                          in if req_paymentMethod req = Stripe
                             then
                               (case createPaymentIntent gateway clk (orders s2) (snd saved) of
                                  Inl e \<Rightarrow> (Inl (ApiError 500 ''Payment setup failed''), s2)
                                | Inr r \<Rightarrow>
                                    (let d1 = (snd (snd r))\<lparr>payment :=
                                                (payment (snd (snd r)))\<lparr>paymentIntentId := Some (fst r)\<rparr>\<rparr>;
                                         saved2 = order_save clk (fst (snd r)) d1
                                     in (Inr (snd saved2), s2\<lparr>orders := fst saved2\<rparr>)))
                             else (Inr (snd saved), s2)))))"

text \<open>\<^verbatim>\<open>cancelOrder\<close>. The permission check is
  \<^verbatim>\<open>order.user.toString() !== req.user.userId && req.user.role !== 'admin'\<close>: its first
  operand compares the string of the order's user with the ObjectId that the
  middleware put into \<^verbatim>\<open>req.user.userId\<close>. A line whose populated product is \<^verbatim>\<open>null\<close>
  (the product was deleted) raises a TypeError in the release loop.\<close>

definition cancelOrder ::
  "clock \<Rightarrow> requester \<Rightarrow> objectId \<Rightarrow> string \<Rightarrow> db \<Rightarrow> (error + order) \<times> db" where
  "cancelOrder clk rq i reason s =
     (case findById (orders s) i of
        None \<Rightarrow> (Inl (ApiError 404 ''Order not found''), s)
      | Some d \<Rightarrow>
          if \<not> strictEquals (JsString (idString (orderUser d))) (JsObjectId (userId rq)) \<and>
             role rq \<noteq> AdminRole
            then (Inl (ApiError 403 ''Access denied''), s)
          else if \<not> canBeCancelled d
            then (Inl (ApiError 400 ''Order cannot be cancelled at this stage''), s)
          else
            (let released = releaseItems (products s) (orderItems d)
             in case fst released of
                  Some e \<Rightarrow> (Inl e, s\<lparr>products := snd released\<rparr>)
                | None \<Rightarrow>
                    (let d1 = addStatusHistory clk Cancelled reason (Some (userId rq)) d;
                         d2 = d1\<lparr>cancelledAt := Some (today clk), cancelReason := Some reason\<rparr>;
                         saved = order_save clk (orders s) d2
                     in (Inr (snd saved),
                         s\<lparr>products := snd released, orders := fst saved\<rparr>))))"

text \<open>\<^verbatim>\<open>updateOrderStatus\<close> (admin route). \<^verbatim>\<open>if (trackingNumber)\<close> and \<^verbatim>\<open>if (carrier)\<close>
  skip an absent or empty string.\<close>

definition updateOrderStatus ::
  "clock \<Rightarrow> requester \<Rightarrow> objectId \<Rightarrow> orderStatus \<Rightarrow> string \<Rightarrow> string option \<Rightarrow> string option
     \<Rightarrow> db \<Rightarrow> (error + order) \<times> db" where
  "updateOrderStatus clk rq i st nt trackingNo carr s =
     (case findById (orders s) i of
        None \<Rightarrow> (Inl (ApiError 404 ''Order not found''), s)
      | Some d \<Rightarrow>
          (let d1 = addStatusHistory clk st nt (Some (userId rq)) d;
               d2 = (case trackingNo of
                       None \<Rightarrow> d1
                     | Some t \<Rightarrow> if t = [] then d1
                                 else d1\<lparr>shipping := (shipping d1)\<lparr>trackingNumber := Some t\<rparr>\<rparr>);
               d3 = (case carr of
                       None \<Rightarrow> d2
                     | Some cr \<Rightarrow> if cr = [] then d2
                                  else d2\<lparr>shipping := (shipping d2)\<lparr>carrier := Some cr\<rparr>\<rparr>);
               d4 = (if st = Delivered
                     then d3\<lparr>shipping := (shipping d3)\<lparr>actualDelivery := Some (today clk)\<rparr>\<rparr>
                     else d3);
               saved = order_save clk (orders s) d4
           in (Inr (snd saved), s\<lparr>orders := fst saved\<rparr>)))"

section \<open>Measures used in the statements\<close>

text \<open>The quantity of product \<open>k\<close> that a list of cart or order lines holds, over all
  its lines for that product.\<close>

definition quantityOf :: "objectId \<Rightarrow> ('a lineItem_scheme) list \<Rightarrow> int" where
  "quantityOf k its = (\<Sum>item\<leftarrow>filter (\<lambda>item. product item = k) its. quantity item)"

text \<open>An order was created on the calendar day that the clock shows.\<close>

definition sameDay :: "clock \<Rightarrow> order \<Rightarrow> bool" where
  "sameDay clk d =
     (case createdAt d of
        None \<Rightarrow> False
      | Some t \<Rightarrow> fst t = year clk \<and> fst (snd t) = month clk \<and> fst (snd (snd t)) = dayOfMonth clk)"

text \<open>A handler is in its critical section from the successful \<^verbatim>\<open>redis.set\<close> until it
  enters the \<^verbatim>\<open>finally\<close> block: these are the points at which it reads and writes the
  cart. It is waiting before its \<^verbatim>\<open>redis.set\<close>. From the \<^verbatim>\<open>finally\<close> block on it has its
  outcome, the response or the error.\<close>

fun critical :: "control \<Rightarrow> bool" where
  "critical (GetCart p) = True"
| "critical (CreateCart p) = True"
| "critical (SaveCart p c) = True"
| "critical (PopulateCart c) = True"
| "critical Validate = False"
| "critical (Acquire p) = False"
| "critical (ReleaseGet res) = False"
| "critical (ReleaseDel res) = False"
| "critical (Finished res) = False"

fun waiting :: "control \<Rightarrow> bool" where
  "waiting Validate = True"
| "waiting (Acquire p) = True"
| "waiting (GetCart p) = False"
| "waiting (CreateCart p) = False"
| "waiting (SaveCart p c) = False"
| "waiting (PopulateCart c) = False"
| "waiting (ReleaseGet res) = False"
| "waiting (ReleaseDel res) = False"
| "waiting (Finished res) = False"


section \<open>Example data\<close>

text \<open>A clock reading 3 November 2026, two products with five units each, and a cart
  with one line for product 2 and two lines for product 1 in different variants, as two
  \<^verbatim>\<open>addToCart\<close> requests with different variants leave it.\<close>

definition ex_clock :: clock where
  "ex_clock = \<lparr>epoch = 1793664000000, year = 2026, month = 10, dayOfMonth = 3, msOfDay = 1000\<rparr>"

definition ex_mug :: productDoc where
  "ex_mug = \<lparr>name = ''Mug'', sku = ''MUG-1'', images = [], productPrice = 10, salePrice = None,
              stock = 5, isActive = True\<rparr>"




definition ex_request :: orderRequest where
  "ex_request =
     \<lparr>req_shippingAddress = ''1 Main St'', req_billingAddress = None,
      req_paymentMethod = CashOnDelivery, req_shippingMethod = None,
      req_couponCode = None, req_notes = None\<rparr>"

text \<open>A cart with the single line of the spec's scenario (two units at 10.00) and a
  database that holds it.\<close>

definition ex_cart20 :: cart where
  "ex_cart20 =
     \<lparr>user = 9,
      items = [\<lparr>product = 1, variant = None, quantity = 2, price = 10, populated = False\<rparr>],
      totalAmount = 20, totalItems = 2\<rparr>"

definition ex_db20 :: db where
  "ex_db20 = \<lparr>products = [1 \<mapsto> ex_mug], orders = [], carts = [9 \<mapsto> ex_cart20]\<rparr>"

text \<open>A stored order of user 9 for two units of product 1, paid through the gateway
  under the intent \<^verbatim>\<open>pi_1\<close>, and a database in which those two units are reserved
  (three of five are left).\<close>

definition ex_order :: order where
  "ex_order =
     \<lparr>oid = 100, isNew = False, orderNumber = ''ORD-20261103-0001'',
      orderUser = 9,
      orderItems = [\<lparr>product = 1, variant = None, quantity = 2, price = 10, total = 20,
                     productSnapshot = \<lparr>snap_name = ''Mug'', snap_sku = ''MUG-1'',
                                        snap_image = None\<rparr>\<rparr>],
      status = Pending,
      statusHistory = [\<lparr>entry_status = Pending, entry_note = ''Order created'',
                        updatedBy = None, timestamp = (2026, 10, 3, 1000)\<rparr>],
      shippingAddress = ''1 Main St'', billingAddress = ''1 Main St'',
      payment = \<lparr>pay_method = Stripe, pay_status = PayProcessing,
                 paymentIntentId = Some ''pi_1'', pay_amount = 2759 / 100\<rparr>,
      pricing = \<lparr>subtotal = 20, pr_shipping = 599 / 100, tax = 8 / 5, discount = 0,
                 pr_total = 2759 / 100\<rparr>,
      shipping = \<lparr>ship_method = Standard, cost = 599 / 100, actualDelivery = None,
                  trackingNumber = None, carrier = None\<rparr>,
      coupon = None, order_notes = None, internalNotes = None,
      cancelledAt = None, cancelReason = None,
      createdAt = Some (2026, 10, 3, 1000)\<rparr>"

definition ex_stored :: "orderStatus \<Rightarrow> db" where
  "ex_stored st =
     \<lparr>products = [1 \<mapsto> ex_mug\<lparr>stock := 3\<rparr>], orders = [ex_order\<lparr>status := st\<rparr>],
      carts = Map.empty\<rparr>"

text \<open>A day on which \<open>n\<close> orders were already created: \<open>n\<close> stored copies of the
  example order under the ids \<open>0, \<dots>, n - 1\<close>, and a database that holds 9999 of them
  beside the one-line cart.\<close>

definition ex_dayOrders :: "nat \<Rightarrow> order list" where
  "ex_dayOrders n = map (\<lambda>k. ex_order\<lparr>oid := k\<rparr>) [0..<n]"

definition ex_busy :: db where
  "ex_busy = ex_db20\<lparr>orders := ex_dayOrders 9999\<rparr>"

text \<open>A server that holds the one-line cart of user 9, with an empty lock store and two
  requests of that user about to be served: both add one unit of product 1, without a
  variant, one millisecond apart.\<close>

definition ex_server :: server where
  "ex_server =
     \<lparr>products = [1 \<mapsto> ex_mug], orders = [], carts = [9 \<mapsto> ex_cart20],
      locks = Map.empty, redisOpen = True, pc = (\<lambda>h. Validate)\<rparr>"

definition ex_reqs :: "handler \<Rightarrow> cartRequest" where
  "ex_reqs h =
     \<lparr>auth_userId = 9, body_productId = 1, body_quantity = 1, body_variantId = None,
      dateNow = (case h of H1 \<Rightarrow> 1000 | H2 \<Rightarrow> 1001)\<rparr>"

section \<open>Cart: totals and \<^verbatim>\<open>addItem\<close>\<close>

lemma foldl_plus_sum_list:
  fixes f :: "'a \<Rightarrow> 'b::comm_monoid_add"
  shows "foldl (\<lambda>sum item. sum + f item) a xs = a + sum_list (map f xs)"
  by (induction xs arbitrary: a) (simp_all add: add.assoc)

lemma cart_save_consistent: "totalsConsistent (cart_save c)"
  by (simp add: totalsConsistent_def cart_save_def foldl_plus_sum_list mult.commute)

lemma items_cart_save: "items (cart_save c) = items c"
  by (simp add: cart_save_def)

lemma findIndex_Some:
  "findIndex P xs = Some i \<Longrightarrow> i < length xs \<and> P (xs ! i) \<and> (\<forall>j<i. \<not> P (xs ! j))"
proof (induction xs arbitrary: i)
  case Nil
  then show ?case by simp
next
  case (Cons x xs)
  show ?case
  proof (cases "P x")
    case True
    with Cons.prems show ?thesis by simp
  next
    case False
    with Cons.prems obtain k where k: "findIndex P xs = Some k" "i = Suc k"
      by auto
    from Cons.IH [OF k(1)] False k(2) show ?thesis
      by (auto simp: less_Suc_eq_0_disj)
  qed
qed

lemma findIndex_None: "findIndex P xs = None \<longleftrightarrow> (\<forall>x\<in>set xs. \<not> P x)"
  by (induction xs) auto

text \<open>
  C4. After every mutating operation of a cart that completes (\<^verbatim>\<open>addItem\<close>,
  \<^verbatim>\<open>updateItem\<close>, \<^verbatim>\<open>removeItem\<close>, \<^verbatim>\<open>clearCart\<close>), \<open>totalItems\<close> is the sum of the
  quantities of all lines and \<open>totalAmount\<close> is the sum over all lines of quantity
  times unit price. \<^verbatim>\<open>updateItem\<close> completes only when it finds the line; otherwise it
  raises and saves nothing.
\<close>

theorem cart_totals_recomputed:
  "totalsConsistent (addItem c productId qty pr variantId) \<and>
   (\<forall>c'. updateItem c productId qty variantId = Inr c' \<longrightarrow> totalsConsistent c') \<and>
   totalsConsistent (removeItem c productId variantId) \<and>
   totalsConsistent (clearCart c)"
  by (auto simp: addItem_def updateItem_def removeItem_def clearCart_def cart_save_consistent
      split: option.splits if_splits)

text \<open>The instance: setting the quantity of the only line of a cart to 5.\<close>

theorem cart_totals_recomputed_witness:
  "updateItem \<lparr>user = 9, items = [\<lparr>product = 1, variant = None, quantity = 2, price = 10, populated = False\<rparr>],
               totalAmount = 20, totalItems = 2\<rparr> 1 5 None =
     Inr \<lparr>user = 9, items = [\<lparr>product = 1, variant = None, quantity = 5, price = 10, populated = False\<rparr>],
          totalAmount = 50, totalItems = 5\<rparr> \<and>
   totalsConsistent \<lparr>user = 9, items = [\<lparr>product = 1, variant = None, quantity = 5, price = 10, populated = False\<rparr>],
          totalAmount = 50, totalItems = 5\<rparr>"
  using cart_totals_recomputed
    [of "\<lparr>user = 9, items = [\<lparr>product = 1, variant = None, quantity = 2, price = 10, populated = False\<rparr>],
               totalAmount = 20, totalItems = 2\<rparr>" 1 5 10 None]
  by (simp add: updateItem_def itemMatches_def cart_save_def)

text \<open>
  The two branches of \<^verbatim>\<open>addItem\<close>. A line matches a call
  \<^verbatim>\<open>addItem(productId, qty, price, variantId)\<close> when its product reads as an id, it has the
  same product and either no variant was supplied or it has the supplied variant. If
  some line matches, the first matching line gets its quantity incremented
  by \<open>qty\<close> and its price overwritten, and no other line changes; if none matches, a
  new line is appended. So a call without a variant updates the first line of that
  product whatever the line's variant is.
\<close>

lemma addItem_first_match:
  "((\<exists>item\<in>set (items c). itemMatches productId variantId item) \<longrightarrow>
      (\<exists>i<length (items c).
          itemMatches productId variantId (items c ! i) \<and>
          (\<forall>j<i. \<not> itemMatches productId variantId (items c ! j)) \<and>
          items (addItem c productId qty pr variantId) =
            (items c)[i := (items c ! i)\<lparr>quantity := quantity (items c ! i) + qty, price := pr\<rparr>])) \<and>
   ((\<forall>item\<in>set (items c). \<not> itemMatches productId variantId item) \<longrightarrow>
      items (addItem c productId qty pr variantId) =
        items c @ [\<lparr>product = productId, variant = variantId, quantity = qty, price = pr,
                    populated = False\<rparr>])"
proof (cases "findIndex (itemMatches productId variantId) (items c)")
  case None
  then have "\<forall>item\<in>set (items c). \<not> itemMatches productId variantId item"
    by (simp add: findIndex_None)
  with None show ?thesis
    by (simp add: addItem_def items_cart_save)
next
  case (Some i)
  from findIndex_Some [OF Some]
  have i: "i < length (items c)" "itemMatches productId variantId (items c ! i)"
    "\<forall>j<i. \<not> itemMatches productId variantId (items c ! j)"
    by simp_all
  have upd: "items (addItem c productId qty pr variantId) =
      (items c)[i := (items c ! i)\<lparr>quantity := quantity (items c ! i) + qty, price := pr\<rparr>]"
    using Some by (simp add: addItem_def items_cart_save)
  have "\<exists>item\<in>set (items c). itemMatches productId variantId item"
    using i(1,2) nth_mem by blast
  with i upd show ?thesis by blast
qed

lemma populate_no_match:
  "findIndex (itemMatches productId variantId) (items (populate c)) = None"
  by (simp add: findIndex_None populate_def itemMatches_def)

lemma ex_key: "lockKey (ex_reqs h) = ''cart_lock:9:1''"
  by (simp add: lockKey_def ex_reqs_def idString_def showNat.simps)

lemma ex_values:
  "lockValue (ex_reqs H1) = ''1000''" "lockValue (ex_reqs H2) = ''1001''"
  by (simp_all add: lockValue_def ex_reqs_def showNat.simps)

lemma ex_fields:
  "auth_userId (ex_reqs h) = 9" "body_productId (ex_reqs h) = 1" "body_quantity (ex_reqs h) = 1"
  "body_variantId (ex_reqs h) = None"
  by (simp_all add: ex_reqs_def)

text \<open>
  C7, evaluated on the code. \<^verbatim>\<open>addToCart\<close> hands \<^verbatim>\<open>addItem\<close> the cart that
  \<^verbatim>\<open>getOrCreateCart\<close> has populated, on which no line matches: \<^verbatim>\<open>addItem\<close> appends a line,
  whatever the cart holds. On the stored cart with one line for product 1 without a
  variant (two units at 10.00), a request for one more unit of product 1 without a
  variant succeeds and leaves two lines with the same product and no variant, of two
  units and of one unit, where one line of three units is due.
\<close>

theorem addToCart_duplicates_line:
  "items (addItem (populate c) productId qty pr variantId) =
     items (populate c) @
       [\<lparr>product = productId, variant = variantId, quantity = qty, price = pr, populated = False\<rparr>] \<and>
   carts ex_server 9 =
     Some \<lparr>user = 9,
        items = [\<lparr>product = 1, variant = None, quantity = 2, price = 10, populated = False\<rparr>],
        totalAmount = 20, totalItems = 2\<rparr> \<and>
   pc (run ex_reqs [Run H1, Run H1, Run H1, Run H1, Run H1, Run H1, Run H1] ex_server) H1 =
     Finished (Inr \<lparr>user = 9,
        items = [\<lparr>product = 1, variant = None, quantity = 2, price = 10, populated = True\<rparr>,
                 \<lparr>product = 1, variant = None, quantity = 1, price = 10, populated = True\<rparr>],
        totalAmount = 30, totalItems = 3\<rparr>) \<and>
   carts (run ex_reqs [Run H1, Run H1, Run H1, Run H1, Run H1, Run H1, Run H1] ex_server) 9 =
     Some \<lparr>user = 9,
        items = [\<lparr>product = 1, variant = None, quantity = 2, price = 10, populated = False\<rparr>,
                 \<lparr>product = 1, variant = None, quantity = 1, price = 10, populated = False\<rparr>],
        totalAmount = 30, totalItems = 3\<rparr>"
proof -
  have a: "items (addItem (populate c) productId qty pr variantId) =
     items (populate c) @
       [\<lparr>product = productId, variant = variantId, quantity = qty, price = pr, populated = False\<rparr>]"
    by (simp add: addItem_def populate_no_match items_cart_save)
  have b: "carts ex_server 9 =
     Some \<lparr>user = 9,
        items = [\<lparr>product = 1, variant = None, quantity = 2, price = 10, populated = False\<rparr>],
        totalAmount = 20, totalItems = 2\<rparr>"
    by (simp add: ex_server_def ex_cart20_def)
  have c: "pc (run ex_reqs [Run H1, Run H1, Run H1, Run H1, Run H1, Run H1, Run H1] ex_server) H1 =
     Finished (Inr \<lparr>user = 9,
        items = [\<lparr>product = 1, variant = None, quantity = 2, price = 10, populated = True\<rparr>,
                 \<lparr>product = 1, variant = None, quantity = 1, price = 10, populated = True\<rparr>],
        totalAmount = 30, totalItems = 3\<rparr>)"
    by (simp add: run_def step_def handlerStep_def ex_server_def ex_mug_def ex_cart20_def
        Let_def populate_def depopulate_def addItem_def itemMatches_def cart_save_def priceFor_def
        ex_key ex_values ex_fields)
  have d: "carts (run ex_reqs [Run H1, Run H1, Run H1, Run H1, Run H1, Run H1, Run H1] ex_server) 9 =
     Some \<lparr>user = 9,
        items = [\<lparr>product = 1, variant = None, quantity = 2, price = 10, populated = False\<rparr>,
                 \<lparr>product = 1, variant = None, quantity = 1, price = 10, populated = False\<rparr>],
        totalAmount = 30, totalItems = 3\<rparr>"
    by (simp add: run_def step_def handlerStep_def ex_server_def ex_mug_def ex_cart20_def
        Let_def populate_def depopulate_def addItem_def itemMatches_def cart_save_def priceFor_def
        ex_key ex_values ex_fields)
  from a b c d show ?thesis by blast
qed

section \<open>Two \<^verbatim>\<open>addToCart\<close> requests and the lock\<close>










lemma critical_not_waiting: "critical pt \<Longrightarrow> \<not> waiting pt"
  by (cases pt) simp_all













section \<open>Order creation: stock reservation\<close>

lemma quantityOf_Cons:
  "quantityOf k (item # rest) =
     (if product item = k then quantity item + quantityOf k rest else quantityOf k rest)"
  by (simp add: quantityOf_def)

lemma quantityOf_Nil: "quantityOf k [] = 0"
  by (simp add: quantityOf_def)

lemma reserveItems_done:
  "reserveItems ps its = (None, ps') \<Longrightarrow>
     ps' k = map_option (\<lambda>p. p\<lparr>stock := stock p - quantityOf k its\<rparr>) (ps k)"
proof (induction its arbitrary: ps)
  case Nil
  then show ?case by (cases "ps k") (simp_all add: quantityOf_Nil)
next
  case (Cons item rest)
  from Cons.prems obtain p where p: "ps (product item) = Some p"
    by (auto split: option.splits)
  with Cons.prems have ok: "\<not> stock p < quantity item"
    and rec: "reserveItems (ps(product item \<mapsto> p\<lparr>stock := stock p - quantity item\<rparr>)) rest = (None, ps')"
    by (auto simp: reserveStock_def split: if_splits)
  from Cons.IH [OF rec] p show ?case
    by (cases "ps k") (auto simp: quantityOf_Cons)
qed


lemma releaseItems_done:
  "releaseItems ps its = (None, ps') \<Longrightarrow>
     ps' k = map_option (\<lambda>p. p\<lparr>stock := stock p + quantityOf k its\<rparr>) (ps k)"
proof (induction its arbitrary: ps)
  case Nil
  then show ?case by (cases "ps k") (simp_all add: quantityOf_Nil)
next
  case (Cons item rest)
  from Cons.prems obtain p where p: "ps (product item) = Some p"
    by (auto split: option.splits)
  with Cons.prems
  have rec: "releaseItems (ps(product item \<mapsto> p\<lparr>stock := stock p + quantity item\<rparr>)) rest = (None, ps')"
    by (simp add: releaseStock_def)
  from Cons.IH [OF rec] p show ?case
    by (cases "ps k") (auto simp: quantityOf_Cons)
qed

lemma releaseItems_error:
  "releaseItems ps its = (Some e, ps') \<Longrightarrow> e = TypeError"
  by (induction its arbitrary: ps) (auto split: option.splits)

lemma order_save_new:
  "isNew d \<Longrightarrow>
     order_save clk coll d =
       (coll @ [(order_presave clk coll d)\<lparr>createdAt := Some (today clk), isNew := False\<rparr>],
        (order_presave clk coll d)\<lparr>createdAt := Some (today clk), isNew := False\<rparr>)"
  by (simp add: order_save_def order_presave_def Let_def)

lemma order_save_old:
  "\<not> isNew d \<Longrightarrow> order_save clk coll d = (map (\<lambda>x. if oid x = oid d then d else x) coll, d)"
  by (simp add: order_save_def order_presave_def)

lemma isNew_newOrder: "isNew (newOrder clk newId uid req c its)"
  by (simp add: newOrder_def addStatusHistory_def Let_def)













section \<open>Order status updates\<close>

lemma find_replace:
  "find (\<lambda>d. oid d = i) coll = Some d0 \<Longrightarrow> oid d' = i \<Longrightarrow>
     find (\<lambda>d. oid d = i) (map (\<lambda>x. if oid x = i then d' else x) coll) = Some d'"
  by (induction coll) (auto split: if_splits)

lemma findById_Some:
  "findById coll i = Some d \<Longrightarrow>
     oid d = i \<and> \<not> isNew d \<and> (\<exists>d0. find (\<lambda>x. oid x = i) coll = Some d0 \<and> d = hydrate d0)"
  by (auto simp: findById_def hydrate_def find_Some_iff)

lemma findById_replace:
  "findById coll i = Some d \<Longrightarrow> oid d' = i \<Longrightarrow> \<not> isNew d' \<Longrightarrow>
     findById (map (\<lambda>x. if oid x = i then d' else x) coll) i = Some d'"
proof -
  assume a: "findById coll i = Some d" "oid d' = i" "\<not> isNew d'"
  from findById_Some [OF a(1)] obtain d0 where "find (\<lambda>x. oid x = i) coll = Some d0"
    by blast
  from find_replace [OF this a(2)] a(3) show ?thesis
    by (simp add: findById_def hydrate_def)
qed

text \<open>
  C2, as the code has it. \<^verbatim>\<open>updateOrderStatus\<close> checks the requested status against
  no transition graph. A request for an order that does not exist is rejected with
  404 and changes nothing. For every existing order, whatever its current status, and
  every requested status, the request is accepted: exactly one entry with the requested
  status, the note, the acting user and the current time is appended to
  \<open>statusHistory\<close>, the order's status becomes the requested one, and the stored
  order is the updated one.
\<close>

theorem updateOrderStatus_unconditional:
  "(findById (orders s) i = None \<longrightarrow>
      updateOrderStatus clk rq i st nt trackingNo carr s = (Inl (ApiError 404 ''Order not found''), s)) \<and>
   (\<forall>d. findById (orders s) i = Some d \<longrightarrow>
      (\<exists>d'. updateOrderStatus clk rq i st nt trackingNo carr s =
               (Inr d', s\<lparr>orders := map (\<lambda>x. if oid x = i then d' else x) (orders s)\<rparr>) \<and>
            status d' = st \<and>
            statusHistory d' = statusHistory d @
              [\<lparr>entry_status = st, entry_note = nt, updatedBy = Some (userId rq),
                timestamp = today clk\<rparr>] \<and>
            findById (map (\<lambda>x. if oid x = i then d' else x) (orders s)) i = Some d'))"
proof (intro conjI allI impI)
  assume "findById (orders s) i = None"
  then show "updateOrderStatus clk rq i st nt trackingNo carr s = (Inl (ApiError 404 ''Order not found''), s)"
    by (simp add: updateOrderStatus_def)
next
  fix d
  assume f: "findById (orders s) i = Some d"
  from findById_Some [OF f] have d: "oid d = i" "\<not> isNew d" by simp_all
  define d1 where "d1 = addStatusHistory clk st nt (Some (userId rq)) d"
  define d2 where "d2 = (case trackingNo of None \<Rightarrow> d1
                     | Some t \<Rightarrow> if t = [] then d1
                                 else d1\<lparr>shipping := (shipping d1)\<lparr>trackingNumber := Some t\<rparr>\<rparr>)"
  define d3 where "d3 = (case carr of None \<Rightarrow> d2
                     | Some cr \<Rightarrow> if cr = [] then d2
                                  else d2\<lparr>shipping := (shipping d2)\<lparr>carrier := Some cr\<rparr>\<rparr>)"
  define d4 where "d4 = (if st = Delivered
                     then d3\<lparr>shipping := (shipping d3)\<lparr>actualDelivery := Some (today clk)\<rparr>\<rparr>
                     else d3)"
  have p1: "oid d1 = i \<and> \<not> isNew d1 \<and> status d1 = st \<and>
      statusHistory d1 = statusHistory d @
        [\<lparr>entry_status = st, entry_note = nt, updatedBy = Some (userId rq), timestamp = today clk\<rparr>]"
    using d by (simp add: d1_def addStatusHistory_def)
  have p2: "oid d2 = oid d1 \<and> isNew d2 = isNew d1 \<and> status d2 = status d1 \<and> statusHistory d2 = statusHistory d1"
    by (simp add: d2_def split: option.splits)
  have p3: "oid d3 = oid d2 \<and> isNew d3 = isNew d2 \<and> status d3 = status d2 \<and> statusHistory d3 = statusHistory d2"
    by (simp add: d3_def split: option.splits)
  have p4: "oid d4 = oid d3 \<and> isNew d4 = isNew d3 \<and> status d4 = status d3 \<and> statusHistory d4 = statusHistory d3"
    by (simp add: d4_def)
  from p1 p2 p3 p4 have q: "oid d4 = i" "\<not> isNew d4" "status d4 = st"
    "statusHistory d4 = statusHistory d @
        [\<lparr>entry_status = st, entry_note = nt, updatedBy = Some (userId rq), timestamp = today clk\<rparr>]"
    by simp_all
  have sv: "order_save clk (orders s) d4 = (map (\<lambda>x. if oid x = i then d4 else x) (orders s), d4)"
    using order_save_old [OF q(2), of clk "orders s"] q(1) by simp
  have run: "updateOrderStatus clk rq i st nt trackingNo carr s =
      (Inr d4, s\<lparr>orders := map (\<lambda>x. if oid x = i then d4 else x) (orders s)\<rparr>)"
  proof -
    have "updateOrderStatus clk rq i st nt trackingNo carr s =
        (Inr (snd (order_save clk (orders s) d4)), s\<lparr>orders := fst (order_save clk (orders s) d4)\<rparr>)"
      by (simp only: updateOrderStatus_def Let_def d1_def d2_def d3_def d4_def f option.case)
    then show ?thesis by (simp only: sv fst_conv snd_conv)
  qed
  from run q findById_replace [OF f q(1) q(2)]
  show "\<exists>d'. updateOrderStatus clk rq i st nt trackingNo carr s =
               (Inr d', s\<lparr>orders := map (\<lambda>x. if oid x = i then d' else x) (orders s)\<rparr>) \<and>
            status d' = st \<and>
            statusHistory d' = statusHistory d @
              [\<lparr>entry_status = st, entry_note = nt, updatedBy = Some (userId rq),
                timestamp = today clk\<rparr>] \<and>
            findById (map (\<lambda>x. if oid x = i then d' else x) (orders s)) i = Some d'"
    by blast
qed

lemma ex_findById: "findById (orders (ex_stored st)) 100 = Some (ex_order\<lparr>status := st\<rparr>)"
  by (simp add: ex_stored_def findById_def hydrate_def ex_order_def)

text \<open>The instances: a request for the stored order 100 and one for the unknown id 7.\<close>

theorem updateOrderStatus_unconditional_witness:
  "findById (orders (ex_stored Delivered)) 100 = Some (ex_order\<lparr>status := Delivered\<rparr>) \<and>
   \<not> isl (fst (updateOrderStatus ex_clock \<lparr>userId = 1, role = AdminRole\<rparr> 100 Pending
                  ''reopened'' None None (ex_stored Delivered))) \<and>
   status (projr (fst (updateOrderStatus ex_clock \<lparr>userId = 1, role = AdminRole\<rparr> 100 Pending
                  ''reopened'' None None (ex_stored Delivered)))) = Pending \<and>
   fst (updateOrderStatus ex_clock \<lparr>userId = 1, role = AdminRole\<rparr> 7 Pending
                  ''reopened'' None None (ex_stored Delivered)) = Inl (ApiError 404 ''Order not found'')"
proof -
  have n: "findById (orders (ex_stored Delivered)) 7 = None"
    by (simp add: ex_stored_def findById_def ex_order_def)
  from updateOrderStatus_unconditional
    [of "ex_stored Delivered" 100 ex_clock "\<lparr>userId = 1, role = AdminRole\<rparr>" Pending "''reopened''" None None]
    updateOrderStatus_unconditional
    [of "ex_stored Delivered" 7 ex_clock "\<lparr>userId = 1, role = AdminRole\<rparr>" Pending "''reopened''" None None]
    ex_findById [of Delivered] n
  show ?thesis by auto
qed

text \<open>The claim as stated has \<open>delivered \<rightarrow> pending\<close> rejected with the order
  unchanged. On the stored order in status delivered the request is accepted, the stored
  status becomes pending and the history grows from one entry to two.\<close>

theorem updateOrderStatus_delivered_to_pending_counterexample:
  "map_option status (findById (orders (ex_stored Delivered)) 100) = Some Delivered \<and>
   \<not> isl (fst (updateOrderStatus ex_clock \<lparr>userId = 1, role = AdminRole\<rparr> 100 Pending
                  ''reopened'' None None (ex_stored Delivered))) \<and>
   map_option status
     (findById (orders (snd (updateOrderStatus ex_clock \<lparr>userId = 1, role = AdminRole\<rparr> 100 Pending
                  ''reopened'' None None (ex_stored Delivered)))) 100) = Some Pending \<and>
   map_option (length \<circ> statusHistory)
     (findById (orders (snd (updateOrderStatus ex_clock \<lparr>userId = 1, role = AdminRole\<rparr> 100 Pending
                  ''reopened'' None None (ex_stored Delivered)))) 100) = Some 2"
  by (simp add: updateOrderStatus_def ex_stored_def findById_def hydrate_def ex_order_def
      addStatusHistory_def order_save_def order_presave_def Let_def)

section \<open>Cancellation\<close>

lemma releaseItems_total:
  "\<forall>item\<in>set its. ps (product item) \<noteq> None \<Longrightarrow> fst (releaseItems ps its) = None"
proof (induction its arbitrary: ps)
  case Nil
  then show ?case by simp
next
  case (Cons item rest)
  then obtain p where p: "ps (product item) = Some p" by auto
  have "\<forall>x\<in>set rest. (ps(product item \<mapsto> releaseStock p (quantity item))) (product x) \<noteq> None"
    using Cons.prems by simp
  with Cons.IH [of "ps(product item \<mapsto> releaseStock p (quantity item))"]
  have "fst (releaseItems (ps(product item \<mapsto> releaseStock p (quantity item))) rest) = None"
    by blast
  with p show ?case by simp
qed

lemma cancelOrder_run:
  assumes f: "findById (orders s) i = Some d"
    and auth: "role rq = AdminRole"
    and st: "canBeCancelled d"
    and rel: "releaseItems (products s) (orderItems d) = (None, ps)"
  shows "cancelOrder clk rq i reason s =
     (Inr ((addStatusHistory clk Cancelled reason (Some (userId rq)) d)
             \<lparr>cancelledAt := Some (today clk), cancelReason := Some reason\<rparr>),
      s\<lparr>products := ps,
        orders := map (\<lambda>x. if oid x = i
                        then (addStatusHistory clk Cancelled reason (Some (userId rq)) d)
                               \<lparr>cancelledAt := Some (today clk), cancelReason := Some reason\<rparr>
                        else x) (orders s)\<rparr>)"
proof -
  from findById_Some [OF f] have d: "oid d = i" "\<not> isNew d" by simp_all
  have sv: "order_save clk (orders s)
        ((addStatusHistory clk Cancelled reason (Some (userId rq)) d)
             \<lparr>cancelledAt := Some (today clk), cancelReason := Some reason\<rparr>) =
      (map (\<lambda>x. if oid x = i
                        then (addStatusHistory clk Cancelled reason (Some (userId rq)) d)
                               \<lparr>cancelledAt := Some (today clk), cancelReason := Some reason\<rparr>
                        else x) (orders s),
       (addStatusHistory clk Cancelled reason (Some (userId rq)) d)
             \<lparr>cancelledAt := Some (today clk), cancelReason := Some reason\<rparr>)"
    using d by (simp add: order_save_old addStatusHistory_def)
  show ?thesis
    using f auth st rel sv by (auto simp: cancelOrder_def Let_def)
qed




section \<open>Payment failure\<close>

lemma handlePaymentFailure_products: "products (handlePaymentFailure clk intentId s) = products s"
  by (simp add: handlePaymentFailure_def Let_def split: option.splits)

text \<open>
  C3, evaluated on the code. \<^verbatim>\<open>handlePaymentFailure\<close> never changes the Product
  collection. On the stored order it sets the payment status to failed and the order to
  cancelled, and product 1 stays at three units; an admin's \<^verbatim>\<open>cancelOrder\<close> on the same
  state returns the two reserved units and leaves five.
\<close>

theorem handlePaymentFailure_keeps_reservation:
  "products (handlePaymentFailure clk intentId s) = products s \<and>
   map_option status (findById (orders (handlePaymentFailure ex_clock ''pi_1'' (ex_stored Pending))) 100)
     = Some Cancelled \<and>
   map_option (pay_status \<circ> payment)
     (findById (orders (handlePaymentFailure ex_clock ''pi_1'' (ex_stored Pending))) 100)
     = Some PayFailed \<and>
   map_option stock (products (ex_stored Pending) 1) = Some 3 \<and>
   map_option stock (products (handlePaymentFailure ex_clock ''pi_1'' (ex_stored Pending)) 1)
     = Some 3 \<and>
   map_option stock
     (products (snd (cancelOrder ex_clock \<lparr>userId = 1, role = AdminRole\<rparr> 100 ''changed my mind''
                  (ex_stored Pending))) 1) = Some 5"
proof -
  have a: "products (handlePaymentFailure clk intentId s) = products s"
    by (rule handlePaymentFailure_products)
  have b: "map_option status (findById (orders (handlePaymentFailure ex_clock ''pi_1'' (ex_stored Pending))) 100)
     = Some Cancelled"
    by (simp add: handlePaymentFailure_def findByIntent_def findById_def hydrate_def ex_stored_def
        ex_order_def addStatusHistory_def order_save_def order_presave_def Let_def)
  have c: "map_option (pay_status \<circ> payment)
     (findById (orders (handlePaymentFailure ex_clock ''pi_1'' (ex_stored Pending))) 100)
     = Some PayFailed"
    by (simp add: handlePaymentFailure_def findByIntent_def findById_def hydrate_def ex_stored_def
        ex_order_def addStatusHistory_def order_save_def order_presave_def Let_def)
  have d: "map_option stock (products (ex_stored Pending) 1) = Some 3"
    by (simp add: ex_stored_def ex_mug_def)
  have e: "map_option stock (products (handlePaymentFailure ex_clock ''pi_1'' (ex_stored Pending)) 1)
     = Some 3"
    by (simp add: handlePaymentFailure_products ex_stored_def ex_mug_def)
  have f: "map_option stock
     (products (snd (cancelOrder ex_clock \<lparr>userId = 1, role = AdminRole\<rparr> 100 ''changed my mind''
                  (ex_stored Pending))) 1) = Some 5"
    by (simp add: cancelOrder_def findById_def hydrate_def ex_stored_def ex_order_def ex_mug_def
        canBeCancelled_def releaseStock_def Let_def)
  from a b c d e f show ?thesis by blast
qed

section \<open>Coupons at checkout\<close>

text \<open>
  C6, evaluated on the code. \<^verbatim>\<open>createOrder\<close> does not call the coupon evaluator of the
  cart controller; it reads a table of its own that has no minimum amount, so
  \<^verbatim>\<open>SAVE10\<close> always gives ten percent of the subtotal. On the cart with subtotal
  20.00, \<^verbatim>\<open>applyCoupon\<close> rejects \<^verbatim>\<open>SAVE10\<close> with the minimum-amount error, and
  \<^verbatim>\<open>createOrder\<close> with the same code creates the order with discount 2.00 and total
  25.59.
\<close>

theorem createOrder_ignores_coupon_minimum:
  "fst (orderDiscount (Some ''SAVE10'') sub) = sub * 10 / 100 \<and>
   totalAmount ex_cart20 = 20 \<and>
   applyCoupon (carts ex_db20) 9 ''SAVE10'' =
     Inl (ApiError 400 ''Minimum order amount of $50 required'') \<and>
   \<not> isl (fst (createOrder (\<lambda>_. None) ex_clock 100 9
                  (ex_request\<lparr>req_couponCode := Some ''SAVE10''\<rparr>) ex_db20)) \<and>
   discount (pricing (projr (fst (createOrder (\<lambda>_. None) ex_clock 100 9
                  (ex_request\<lparr>req_couponCode := Some ''SAVE10''\<rparr>) ex_db20)))) = 2 \<and>
   pr_total (pricing (projr (fst (createOrder (\<lambda>_. None) ex_clock 100 9
                  (ex_request\<lparr>req_couponCode := Some ''SAVE10''\<rparr>) ex_db20)))) = 2559 / 100"
proof -
  have a: "fst (orderDiscount (Some ''SAVE10'') sub) = sub * 10 / 100"
    by (simp add: orderDiscount_def orderMockCoupons_def toUpperCase_def Let_def)
  have b: "totalAmount ex_cart20 = 20" by (simp add: ex_cart20_def)
  have c: "applyCoupon (carts ex_db20) 9 ''SAVE10'' =
     Inl (ApiError 400 ''Minimum order amount of $50 required'')"
    by (simp add: applyCoupon_def ex_db20_def ex_cart20_def cartMockCoupons_def toUpperCase_def
        showNat.simps)
  have run: "fst (createOrder (\<lambda>_. None) ex_clock 100 9
                  (ex_request\<lparr>req_couponCode := Some ''SAVE10''\<rparr>) ex_db20) =
      Inr (snd (order_save ex_clock []
            (newOrder ex_clock 100 9 (ex_request\<lparr>req_couponCode := Some ''SAVE10''\<rparr>) ex_cart20
               [\<lparr>product = 1, variant = None, quantity = 2, price = 10, total = 20,
                 productSnapshot = \<lparr>snap_name = ''Mug'', snap_sku = ''MUG-1'', snap_image = None\<rparr>\<rparr>])))"
    by (simp add: createOrder_def ex_db20_def ex_cart20_def ex_mug_def ex_request_def isEmpty_def
        reserveStock_def Let_def)
  have pr: "pricing (snd (order_save ex_clock []
            (newOrder ex_clock 100 9 (ex_request\<lparr>req_couponCode := Some ''SAVE10''\<rparr>) ex_cart20 its))) =
       \<lparr>subtotal = 20, pr_shipping = 599 / 100, tax = 8 / 5, discount = 2, pr_total = 2559 / 100\<rparr>" for its
    by (simp add: order_save_def order_presave_def newOrder_def addStatusHistory_def Let_def
        ex_request_def ex_cart20_def orderDiscount_def orderMockCoupons_def toUpperCase_def
        shippingCostOf_def shippingCosts_def)
  from a b c run pr show ?thesis by simp
qed

section \<open>Order numbers\<close>

lemma date_window:
  "((y, m, d, 0) \<le> (t :: date) \<and> t < (y, m, Suc d, 0)) \<longleftrightarrow>
     (fst t = y \<and> fst (snd t) = m \<and> fst (snd (snd t)) = d)"
  by (cases t) (auto simp: less_eq_prod_def less_prod_def)

lemma countDocuments_sameDay:
  "countDocuments coll (year clk, month clk, dayOfMonth clk, 0)
       (year clk, month clk, Suc (dayOfMonth clk), 0) = length (filter (sameDay clk) coll)"
proof -
  have "(\<lambda>d. case createdAt d of None \<Rightarrow> False
          | Some t \<Rightarrow> (year clk, month clk, dayOfMonth clk, 0) \<le> t \<and>
                      t < (year clk, month clk, Suc (dayOfMonth clk), 0)) = sameDay clk"
    by (rule ext) (simp add: sameDay_def date_window split: option.splits)
  then show ?thesis by (simp only: countDocuments_def)
qed

lemma orderNumber_presave:
  "isNew d \<Longrightarrow>
     orderNumber (order_presave clk coll d) =
       ''ORD-'' @ showNat (year clk) @ padStart 2 CHR ''0'' (showNat (month clk + 1)) @
       padStart 2 CHR ''0'' (showNat (dayOfMonth clk)) @ ''-'' @
       padStart 4 CHR ''0'' (showNat (length (filter (sameDay clk) coll) + 1))"
  by (simp add: order_presave_def Let_def countDocuments_sameDay)

lemma orderNumber_save_new:
  "isNew d \<Longrightarrow>
     orderNumber (snd (order_save clk coll d)) =
       ''ORD-'' @ showNat (year clk) @ padStart 2 CHR ''0'' (showNat (month clk + 1)) @
       padStart 2 CHR ''0'' (showNat (dayOfMonth clk)) @ ''-'' @
       padStart 4 CHR ''0'' (showNat (length (filter (sameDay clk) coll) + 1))"
  by (simp add: order_save_new orderNumber_presave)

lemma orderNumber_save_old:
  "\<not> isNew d \<Longrightarrow> orderNumber (snd (order_save clk coll d)) = orderNumber d"
  by (simp add: order_save_old)

lemma createOrder_orderNumber:
  assumes "createOrder gateway clk newId uid req s = (Inr d', s')"
  shows "orderNumber d' =
       ''ORD-'' @ showNat (year clk) @ padStart 2 CHR ''0'' (showNat (month clk + 1)) @
       padStart 2 CHR ''0'' (showNat (dayOfMonth clk)) @ ''-'' @
       padStart 4 CHR ''0'' (showNat (length (filter (sameDay clk) (orders s)) + 1))"
proof -
  from assms obtain c where c: "carts s uid = Some c"
    by (auto simp: createOrder_def split: option.splits)
  from assms c obtain its where its: "snapshotItems (products s) (items c) = Some its"
    and ne: "\<not> isEmpty c" and val: "\<not> length (validateItems (products s) (items c)) > 0"
    by (auto simp: createOrder_def split: option.splits if_splits)
  define d0 where "d0 = newOrder clk newId uid req c its"
  define d where "d = (order_presave clk (orders s) d0)\<lparr>createdAt := Some (today clk), isNew := False\<rparr>"
  have sv: "order_save clk (orders s) d0 = (orders s @ [d], d)"
    by (simp add: d_def d0_def order_save_new isNew_newOrder)
  have num: "orderNumber d =
       ''ORD-'' @ showNat (year clk) @ padStart 2 CHR ''0'' (showNat (month clk + 1)) @
       padStart 2 CHR ''0'' (showNat (dayOfMonth clk)) @ ''-'' @
       padStart 4 CHR ''0'' (showNat (length (filter (sameDay clk) (orders s)) + 1))"
    by (simp add: d_def d0_def orderNumber_presave isNew_newOrder)
  have old: "\<not> isNew d" by (simp add: d_def)
  from assms c its ne val sv old have "orderNumber d' = orderNumber d"
    by (auto simp: createOrder_def d0_def Let_def createPaymentIntent_def order_save_old
        split: option.splits if_splits sum.splits)
  with num show ?thesis by simp
qed

lemma length_showNat_le: "0 < k \<Longrightarrow> n < 10 ^ k \<Longrightarrow> length (showNat n) \<le> k"
proof (induction k arbitrary: n)
  case 0
  then show ?case by simp
next
  case (Suc k)
  show ?case
  proof (cases "n < 10")
    case True
    then show ?thesis by (simp add: showNat.simps [of n])
  next
    case False
    with Suc.prems have k: "0 < k" by (cases k) auto
    from Suc.prems have "n div 10 < 10 ^ k" by (simp add: less_mult_imp_div_less mult.commute)
    from Suc.IH [OF k this] False show ?thesis by (simp add: showNat.simps [of n])
  qed
qed

lemma length_showNat_gt: "10 ^ k \<le> n \<Longrightarrow> k < length (showNat n)"
proof (induction k arbitrary: n)
  case 0
  then show ?case by (simp add: showNat.simps [of n])
next
  case (Suc k)
  from Suc.prems have "10 * 10 ^ k \<le> n" by simp
  moreover have "(1::nat) \<le> 10 ^ k" by simp
  ultimately have "\<not> n < 10" by linarith
  moreover from Suc.prems have "10 ^ k \<le> n div 10" by (simp add: less_eq_div_iff_mult_less_eq mult.commute)
  ultimately show ?case using Suc.IH [of "n div 10"] by (simp add: showNat.simps [of n])
qed

lemma length_padStart: "length (padStart w c s) = max w (length s)"
  by (simp add: padStart_def)


lemma padStart_short:
  "padStart 2 c [a] = [c, a]"
  "padStart 2 c [a, b] = [a, b]"
  "padStart 4 c [a] = [c, c, c, a]"
  "padStart 4 c [a, b, e, f, g] = [a, b, e, f, g]"
  by (simp_all add: padStart_def numeral_3_eq_3)

lemma ex_showNat:
  "showNat 2026 = ''2026''" "showNat 11 = ''11''" "showNat 3 = ''3''"
  "showNat 1 = ''1''" "showNat 10000 = ''10000''"
  by (simp_all add: showNat.simps)

text \<open>
  C8, as the code has it. The provisional number that \<^verbatim>\<open>createOrder\<close> assigns is
  overwritten by the \<^verbatim>\<open>pre('save')\<close> hook at the first save, and the order that
  \<^verbatim>\<open>createOrder\<close> returns carries \<^verbatim>\<open>ORD-\<close>, the year, the month and the day padded to
  two digits, a dash, and the counter: the number of stored orders created on the same
  calendar day plus one, in decimal, padded with zeros to at least four digits. A later
  save of a stored order leaves the number as it is. For a four-digit year the date part
  has eight digits. The counter has exactly four digits while it is at most 9999; beyond
  that \<^verbatim>\<open>padStart\<close> adds nothing and the counter is longer.
\<close>

theorem orderNumber_per_day_counter:
  "(\<forall>d' s'. createOrder gateway clk newId uid req s = (Inr d', s') \<longrightarrow>
      orderNumber d' =
        ''ORD-'' @ showNat (year clk) @ padStart 2 CHR ''0'' (showNat (month clk + 1)) @
        padStart 2 CHR ''0'' (showNat (dayOfMonth clk)) @ ''-'' @
        padStart 4 CHR ''0'' (showNat (length (filter (sameDay clk) (orders s)) + 1))) \<and>
   (\<not> isNew d \<longrightarrow> orderNumber (snd (order_save clk' coll d)) = orderNumber d) \<and>
   (1000 \<le> year clk \<and> year clk \<le> 9999 \<and> month clk < 12 \<and> dayOfMonth clk \<le> 31 \<longrightarrow>
      length (showNat (year clk) @ padStart 2 CHR ''0'' (showNat (month clk + 1)) @
              padStart 2 CHR ''0'' (showNat (dayOfMonth clk))) = 8) \<and>
   (n + 1 \<le> 9999 \<longrightarrow> length (padStart 4 CHR ''0'' (showNat (n + 1))) = 4) \<and>
   (9999 < n + 1 \<longrightarrow>
      padStart 4 CHR ''0'' (showNat (n + 1)) = showNat (n + 1) \<and> 4 < length (showNat (n + 1)))"
proof (intro conjI allI impI)
  fix d' s'
  assume "createOrder gateway clk newId uid req s = (Inr d', s')"
  then show "orderNumber d' =
        ''ORD-'' @ showNat (year clk) @ padStart 2 CHR ''0'' (showNat (month clk + 1)) @
        padStart 2 CHR ''0'' (showNat (dayOfMonth clk)) @ ''-'' @
        padStart 4 CHR ''0'' (showNat (length (filter (sameDay clk) (orders s)) + 1))"
    by (rule createOrder_orderNumber)
next
  assume "\<not> isNew d"
  then show "orderNumber (snd (order_save clk' coll d)) = orderNumber d"
    by (rule orderNumber_save_old)
next
  assume b: "1000 \<le> year clk \<and> year clk \<le> 9999 \<and> month clk < 12 \<and> dayOfMonth clk \<le> 31"
  have y1: "length (showNat (year clk)) \<le> 4"
    using b length_showNat_le [of 4 "year clk"] by simp
  have y2: "3 < length (showNat (year clk))"
    using b length_showNat_gt [of 3 "year clk"] by simp
  have m: "length (showNat (month clk + 1)) \<le> 2"
    using b length_showNat_le [of 2 "month clk + 1"] by simp
  have dd: "length (showNat (dayOfMonth clk)) \<le> 2"
    using b length_showNat_le [of 2 "dayOfMonth clk"] by simp
  from y1 y2 m dd
  show "length (showNat (year clk) @ padStart 2 CHR ''0'' (showNat (month clk + 1)) @
              padStart 2 CHR ''0'' (showNat (dayOfMonth clk))) = 8"
    by (simp add: length_padStart)
next
  assume "n + 1 \<le> 9999"
  then have "length (showNat (n + 1)) \<le> 4"
    using length_showNat_le [of 4 "n + 1"] by simp
  then show "length (padStart 4 CHR ''0'' (showNat (n + 1))) = 4"
    by (simp add: length_padStart)
next
  assume "9999 < n + 1"
  then have "4 < length (showNat (n + 1))"
    using length_showNat_gt [of 4 "n + 1"] by simp
  then show "padStart 4 CHR ''0'' (showNat (n + 1)) = showNat (n + 1)"
    by (simp add: padStart_def)
next
  assume "9999 < n + 1"
  then show "4 < length (showNat (n + 1))"
    using length_showNat_gt [of 4 "n + 1"] by simp
qed

text \<open>The instance: the first order of 3 November 2026.\<close>

theorem orderNumber_per_day_counter_witness:
  "\<not> isl (fst (createOrder (\<lambda>_. None) ex_clock 100 9 ex_request ex_db20)) \<and>
   orderNumber (projr (fst (createOrder (\<lambda>_. None) ex_clock 100 9 ex_request ex_db20))) =
     ''ORD-20261103-0001''"
proof -
  have r: "\<not> isl (fst (createOrder (\<lambda>_. None) ex_clock 100 9 ex_request ex_db20))"
    by (simp add: createOrder_def ex_db20_def ex_cart20_def ex_mug_def ex_request_def isEmpty_def
        reserveStock_def Let_def)
  then obtain d' s' where run: "createOrder (\<lambda>_. None) ex_clock 100 9 ex_request ex_db20 = (Inr d', s')"
    by (metis isl_def prod.collapse sum.collapse(2))
  from orderNumber_per_day_counter [of "\<lambda>_. None" ex_clock 100 9 ex_request ex_db20] run
  have "orderNumber d' =
        ''ORD-'' @ showNat (year ex_clock) @ padStart 2 CHR ''0'' (showNat (month ex_clock + 1)) @
        padStart 2 CHR ''0'' (showNat (dayOfMonth ex_clock)) @ ''-'' @
        padStart 4 CHR ''0'' (showNat (length (filter (sameDay ex_clock) (orders ex_db20)) + 1))"
    by blast
  moreover have "length (filter (sameDay ex_clock) (orders ex_db20)) + 1 = 1"
    by (simp add: ex_db20_def)
  moreover have "year ex_clock = 2026" "month ex_clock + 1 = 11" "dayOfMonth ex_clock = 3"
    by (simp_all add: ex_clock_def)
  ultimately have "orderNumber d' = ''ORD-20261103-0001''"
    by (simp only: ex_showNat padStart_short append.simps)
  with r run show ?thesis by simp
qed

lemma sameDay_ex_dayOrders: "length (filter (sameDay ex_clock) (ex_dayOrders n)) = n"
proof -
  have "filter (sameDay ex_clock) (ex_dayOrders n) = ex_dayOrders n"
    by (simp add: ex_dayOrders_def sameDay_def ex_order_def ex_clock_def)
  then show ?thesis by (simp add: ex_dayOrders_def)
qed

text \<open>The claim as stated gives every order a four-digit counter. With 9999 orders
  already created that day, the next order gets the five-digit counter 10000.\<close>

theorem orderNumber_five_digit_counterexample:
  "length (ex_dayOrders 9999) = 9999 \<and>
   \<not> isl (fst (createOrder (\<lambda>_. None) ex_clock 20000 9 ex_request ex_busy)) \<and>
   orderNumber (projr (fst (createOrder (\<lambda>_. None) ex_clock 20000 9 ex_request ex_busy))) =
     ''ORD-20261103-10000''"
proof -
  have l: "length (ex_dayOrders 9999) = 9999" by (simp add: ex_dayOrders_def)
  have r: "\<not> isl (fst (createOrder (\<lambda>_. None) ex_clock 20000 9 ex_request ex_busy))"
    by (simp add: createOrder_def ex_busy_def ex_db20_def ex_cart20_def ex_mug_def ex_request_def
        isEmpty_def reserveStock_def Let_def)
  then obtain d' s' where run: "createOrder (\<lambda>_. None) ex_clock 20000 9 ex_request ex_busy = (Inr d', s')"
    by (metis isl_def prod.collapse sum.collapse(2))
  from createOrder_orderNumber [OF run]
  have "orderNumber d' =
        ''ORD-'' @ showNat (year ex_clock) @ padStart 2 CHR ''0'' (showNat (month ex_clock + 1)) @
        padStart 2 CHR ''0'' (showNat (dayOfMonth ex_clock)) @ ''-'' @
        padStart 4 CHR ''0'' (showNat (length (filter (sameDay ex_clock) (orders ex_busy)) + 1))" .
  moreover have "length (filter (sameDay ex_clock) (orders ex_busy)) + 1 = 10000"
    by (simp add: ex_busy_def sameDay_ex_dayOrders)
  moreover have "year ex_clock = 2026" "month ex_clock + 1 = 11" "dayOfMonth ex_clock = 3"
    by (simp_all add: ex_clock_def)
  ultimately have "orderNumber d' = ''ORD-20261103-10000''"
    by (simp only: ex_showNat padStart_short append.simps)
  with l r run show ?thesis by simp
qed

section \<open>Serialisation of an order\<close>

lemma map_of_filter_key:
  "map_of (filter (\<lambda>kv. fst kv \<noteq> k) xs) = (map_of xs)(k := None)"
  by (induction xs) (auto simp: fun_eq_iff)

text \<open>
  C10. The JSON form of an order never has the key \<^verbatim>\<open>internalNotes\<close>, whatever the
  order holds: \<^verbatim>\<open>toJSON\<close> is \<^verbatim>\<open>toObject()\<close> with that one key deleted and every other
  key as it was, and \<^verbatim>\<open>toObject()\<close> does carry the internal notes when the order has
  any.
\<close>

theorem toJSON_omits_internalNotes:
  "''internalNotes'' \<notin> fst ` set (toJSON d) \<and>
   map_of (toJSON d) = (map_of (toObject d))(''internalNotes'' := None) \<and>
   map_of (toObject d) ''internalNotes'' = map_option JStr (internalNotes d)"
proof -
  have a: "''internalNotes'' \<notin> fst ` set (toJSON d)"
    by (auto simp: toJSON_def)
  have b: "map_of (toJSON d) = (map_of (toObject d))(''internalNotes'' := None)"
    by (simp add: toJSON_def map_of_filter_key)
  have c: "map_of (toObject d) ''internalNotes'' = map_option JStr (internalNotes d)"
    by (simp add: toObject_def optField_def map_add_def split: option.splits)
  from a b c show ?thesis by blast
qed

section \<open>Further properties\<close>

text \<open>
  \<^verbatim>\<open>removeItem\<close> is idempotent: removing a line that is already absent gives the
  same cart again, with no error.
\<close>

theorem removeItem_idempotent:
  "removeItem (removeItem c productId variantId) productId variantId = removeItem c productId variantId"
  by (simp add: removeItem_def cart_save_def)

text \<open>
  A reservation that succeeds takes exactly the requested quantity and, for a
  non-negative quantity, never leaves a negative stock.
\<close>

theorem reserveStock_never_negative:
  "reserveStock p qty = Inr p' \<Longrightarrow> 0 \<le> qty \<Longrightarrow> 0 \<le> stock p' \<and> stock p' = stock p - qty"
  by (auto simp: reserveStock_def split: if_splits)

text \<open>The instance: reserving all five units of a product.\<close>

theorem reserveStock_never_negative_witness:
  "reserveStock ex_mug 5 = Inr (ex_mug\<lparr>stock := 0\<rparr>) \<and> (0::int) \<le> 5 \<and>
   0 \<le> stock (ex_mug\<lparr>stock := 0\<rparr>) \<and> stock (ex_mug\<lparr>stock := 0\<rparr>) = stock ex_mug - 5"
proof -
  have r: "reserveStock ex_mug 5 = Inr (ex_mug\<lparr>stock := 0\<rparr>)"
    by (simp add: reserveStock_def ex_mug_def)
  from reserveStock_never_negative [OF r] r show ?thesis by simp
qed

text \<open>
  The pricing scenario: a cart with one line of two units at 10.00, standard
  shipping and no coupon gives subtotal 20.00, shipping 5.99, tax 1.60, discount 0 and
  total 27.59.
\<close>

theorem createOrder_pricing_scenario:
  "\<not> isl (fst (createOrder (\<lambda>_. None) ex_clock 100 9 ex_request ex_db20)) \<and>
   pricing (projr (fst (createOrder (\<lambda>_. None) ex_clock 100 9 ex_request ex_db20))) =
     \<lparr>subtotal = 20, pr_shipping = 599 / 100, tax = 160 / 100, discount = 0, pr_total = 2759 / 100\<rparr>"
proof -
  have run: "fst (createOrder (\<lambda>_. None) ex_clock 100 9 ex_request ex_db20) =
      Inr (snd (order_save ex_clock []
            (newOrder ex_clock 100 9 ex_request ex_cart20
               [\<lparr>product = 1, variant = None, quantity = 2, price = 10, total = 20,
                 productSnapshot = \<lparr>snap_name = ''Mug'', snap_sku = ''MUG-1'', snap_image = None\<rparr>\<rparr>])))"
    by (simp add: createOrder_def ex_db20_def ex_cart20_def ex_mug_def ex_request_def isEmpty_def
        reserveStock_def Let_def)
  have pr: "pricing (snd (order_save ex_clock [] (newOrder ex_clock 100 9 ex_request ex_cart20 its))) =
       \<lparr>subtotal = 20, pr_shipping = 599 / 100, tax = 160 / 100, discount = 0, pr_total = 2759 / 100\<rparr>" for its
    by (simp add: order_save_def order_presave_def newOrder_def addStatusHistory_def Let_def
        ex_request_def ex_cart20_def orderDiscount_def shippingCostOf_def shippingCosts_def)
  from run pr show ?thesis by simp
qed

text \<open>
  The shipping cost that \<^verbatim>\<open>createOrder\<close> charges: the table gives 0 for
  \<^verbatim>\<open>pickup\<close>, but the table is read with \<^verbatim>\<open>|| 5.99\<close>, so a pickup order is charged 5.99
  like a standard one; the other methods are charged their table entry.
\<close>

theorem pickup_is_charged:
  "shippingCosts Pickup = 0 \<and> shippingCostOf Pickup = 599 / 100 \<and>
   shippingCostOf Standard = 599 / 100 \<and> shippingCostOf Express = 1299 / 100 \<and>
   shippingCostOf Overnight = 2499 / 100"
  by (simp add: shippingCostOf_def shippingCosts_def)


lemma snapshotItems_Some:
  "snapshotItems ps its = Some out \<Longrightarrow>
     (\<forall>item\<in>set its. ps (product item) \<noteq> None) \<and> quantityOf k out = quantityOf k its \<and>
     map product out = map product its"
proof (induction its arbitrary: out)
  case Nil
  then show ?case by (simp add: quantityOf_def)
next
  case (Cons item rest)
  from Cons.prems obtain p more where p: "ps (product item) = Some p"
    and more: "snapshotItems ps rest = Some more"
    and out: "out = \<lparr>product = product item, variant = variant item,
                      quantity = quantity item, price = price item,
                      total = price item * of_int (quantity item),
                      productSnapshot =
                        \<lparr>snap_name = name p, snap_sku = sku p,
                         snap_image = (case images p of [] \<Rightarrow> None | u # _ \<Rightarrow> Some u)\<rparr>\<rparr> # more"
    by (auto split: option.splits)
  from Cons.IH [OF more] p out show ?case
    by (simp add: quantityOf_Cons)
qed

lemma find_append_last: "\<forall>x\<in>set xs. \<not> P x \<Longrightarrow> P y \<Longrightarrow> find P (xs @ [y]) = Some y"
  by (induction xs) auto

lemma createOrder_success:
  assumes run: "createOrder gateway clk newId uid req s = (Inr d', s')"
    and fresh: "\<forall>x\<in>set (orders s). oid x \<noteq> newId"
  shows "\<exists>c its. carts s uid = Some c \<and> snapshotItems (products s) (items c) = Some its \<and>
           reserveItems (products s) (items c) = (None, products s') \<and>
           orderItems d' = its \<and> orderUser d' = uid \<and> status d' = Pending \<and>
           findById (orders s') newId = Some d'"
proof -
  from run obtain c where c: "carts s uid = Some c"
    by (auto simp: createOrder_def split: option.splits)
  from run c obtain its where its: "snapshotItems (products s) (items c) = Some its"
    and ne: "\<not> isEmpty c" and val: "\<not> length (validateItems (products s) (items c)) > 0"
    by (auto simp: createOrder_def split: option.splits if_splits)
  define d0 where "d0 = newOrder clk newId uid req c its"
  define d where "d = (order_presave clk (orders s) d0)\<lparr>createdAt := Some (today clk), isNew := False\<rparr>"
  have sv: "order_save clk (orders s) d0 = (orders s @ [d], d)"
    by (simp add: d_def d0_def order_save_new isNew_newOrder)
  have dp: "oid d = newId" "\<not> isNew d" "orderItems d = its" "orderUser d = uid" "status d = Pending"
    by (simp_all add: d_def d0_def order_presave_def newOrder_def addStatusHistory_def Let_def)
  obtain r ps where r: "reserveItems (products s) (items c) = (r, ps)"
    by (cases "reserveItems (products s) (items c)")
  from run c its ne val sv r have rn: "r = None"
    by (cases r) (auto simp: createOrder_def d0_def Let_def)
  have f0: "find (\<lambda>x. oid x = newId) (orders s @ [d]) = Some d"
    using fresh dp(1) by (simp add: find_append_last)
  show ?thesis
  proof (cases "req_paymentMethod req = Stripe")
    case False
    with run c its ne val sv r rn have "d' = d" and s': "orders s' = orders s @ [d]" "products s' = ps"
      by (auto simp: createOrder_def d0_def Let_def)
    with c its r rn dp f0 show ?thesis
      by (auto simp: findById_def hydrate_def)
  next
    case True
    define s2 where "s2 = s\<lparr>orders := orders s @ [d], products := ps,
                              carts := (carts s)(uid \<mapsto> clearCart c)\<rparr>"
    from run c its ne val sv r rn True
    obtain intentId where g: "gateway (pr_total (pricing d)) = Some intentId"
      by (cases "gateway (pr_total (pricing d))")
         (auto simp: createOrder_def d0_def Let_def createPaymentIntent_def)
    define d1 where "d1 = d\<lparr>payment := (payment d)\<lparr>paymentIntentId := Some intentId,
                                                     pay_status := PayProcessing\<rparr>\<rparr>"
    have d1p: "oid d1 = newId" "\<not> isNew d1" "orderItems d1 = its" "orderUser d1 = uid" "status d1 = Pending"
      using dp by (simp_all add: d1_def)
    have same: "d1\<lparr>payment := (payment d1)\<lparr>paymentIntentId := Some intentId\<rparr>\<rparr> = d1"
      by (simp add: d1_def)
    from run c its ne val sv r rn True g dp(2) d1p(2)
    have "d' = d1" and s': "products s' = ps"
      "orders s' = map (\<lambda>x. if oid x = newId then d1 else x)
                     (map (\<lambda>x. if oid x = newId then d1 else x) (orders s @ [d]))"
      using dp(1) d1p(1) same
      by (auto simp: createOrder_def d0_def Let_def createPaymentIntent_def order_save_old d1_def)
    moreover have "find (\<lambda>x. oid x = newId) (map (\<lambda>x. if oid x = newId then d1 else x)
                     (map (\<lambda>x. if oid x = newId then d1 else x) (orders s @ [d]))) = Some d1"
      using find_replace [OF find_replace [OF f0 d1p(1)] d1p(1)] .
    ultimately show ?thesis
      using c its r rn d1p by (auto simp: findById_def hydrate_def)
  qed
qed

text \<open>
  Round trip: when \<^verbatim>\<open>createOrder\<close> succeeds under an order id that no stored order
  has, an admin's \<^verbatim>\<open>cancelOrder\<close> on the new order succeeds and leaves the Product
  collection exactly as it was before the order was created.
\<close>

theorem create_then_cancel_restores_stock:
  assumes run: "createOrder gateway clk newId uid req s = (Inr d', s')"
    and fresh: "\<forall>x\<in>set (orders s). oid x \<noteq> newId"
  shows "\<exists>d'' s''. cancelOrder clk2 \<lparr>userId = admin, role = AdminRole\<rparr> newId reason s' =
             (Inr d'', s'') \<and>
           status d'' = Cancelled \<and> products s'' = products s"
proof -
  from createOrder_success [OF run fresh] obtain c its where
    h: "carts s uid = Some c" "snapshotItems (products s) (items c) = Some its"
       "reserveItems (products s) (items c) = (None, products s')"
       "orderItems d' = its" "orderUser d' = uid" "status d' = Pending"
       "findById (orders s') newId = Some d'"
    by blast
  have res: "products s' k = map_option (\<lambda>p. p\<lparr>stock := stock p - quantityOf k (items c)\<rparr>) (products s k)" for k
    using reserveItems_done [OF h(3)] .
  have ex: "\<forall>item\<in>set its. products s' (product item) \<noteq> None"
  proof
    fix item assume "item \<in> set its"
    then have "product item \<in> set (map product its)" by simp
    with snapshotItems_Some [OF h(2), of 0] have "product item \<in> set (map product (items c))"
      by simp
    then obtain it where "it \<in> set (items c)" "product it = product item" by auto
    with snapshotItems_Some [OF h(2), of 0] have "products s (product item) \<noteq> None"
      by metis
    then show "products s' (product item) \<noteq> None" by (simp add: res)
  qed
  have "fst (releaseItems (products s') (orderItems d')) = None"
    using releaseItems_total [of "orderItems d'" "products s'"] ex h(4) by simp
  then have rel: "releaseItems (products s') (orderItems d') =
      (None, snd (releaseItems (products s') (orderItems d')))"
    by (metis prod.collapse)
  have auth: "role \<lparr>userId = admin, role = AdminRole\<rparr> = AdminRole"
    by simp
  have st: "canBeCancelled d'" using h(6) by (simp add: canBeCancelled_def)
  note c = cancelOrder_run [OF h(7) auth st rel, of clk2 reason]
  have restored: "snd (releaseItems (products s') (orderItems d')) k = products s k" for k
  proof -
    have q: "quantityOf k (orderItems d') = quantityOf k (items c)"
      using snapshotItems_Some [OF h(2), of k] h(4) by simp
    have e1: "snd (releaseItems (products s') (orderItems d')) k =
        map_option (\<lambda>p. p\<lparr>stock := stock p + quantityOf k (items c)\<rparr>) (products s' k)"
      using releaseItems_done [OF rel, of k] by (simp only: q)
    have e2: "map_option (\<lambda>p. p\<lparr>stock := stock p + quantityOf k (items c)\<rparr>) (products s' k) =
        products s k"
      by (cases "products s k") (simp_all add: res [of k])
    from e1 e2 show ?thesis by (rule trans)
  qed
  then have "snd (releaseItems (products s') (orderItems d')) = products s" by (rule ext)
  with c show ?thesis by (simp add: addStatusHistory_def)
qed


text \<open>The instance: the one-line cart is ordered, which reserves two of the five units,
  and the order is cancelled.\<close>

theorem create_then_cancel_restores_stock_witness:
  "\<not> isl (fst (createOrder (\<lambda>_. None) ex_clock 100 9 ex_request ex_db20)) \<and>
   map_option stock (products (snd (createOrder (\<lambda>_. None) ex_clock 100 9 ex_request ex_db20)) 1) = Some 3 \<and>
   products (snd (cancelOrder ex_clock \<lparr>userId = 1, role = AdminRole\<rparr> 100 ''changed my mind''
                    (snd (createOrder (\<lambda>_. None) ex_clock 100 9 ex_request ex_db20)))) =
     products ex_db20"
proof -
  have r: "\<not> isl (fst (createOrder (\<lambda>_. None) ex_clock 100 9 ex_request ex_db20))"
    by (simp add: createOrder_def ex_db20_def ex_cart20_def ex_mug_def ex_request_def isEmpty_def
        reserveStock_def Let_def)
  then obtain d' s' where run: "createOrder (\<lambda>_. None) ex_clock 100 9 ex_request ex_db20 = (Inr d', s')"
    by (metis isl_def prod.collapse sum.collapse(2))
  have fresh: "\<forall>x\<in>set (orders ex_db20). oid x \<noteq> 100" by (simp add: ex_db20_def)
  from create_then_cancel_restores_stock [OF run fresh, of ex_clock 1 "''changed my mind''"]
  have c: "products (snd (cancelOrder ex_clock \<lparr>userId = 1, role = AdminRole\<rparr> 100 ''changed my mind'' s')) =
      products ex_db20"
    by auto
  have m: "map_option stock (products (snd (createOrder (\<lambda>_. None) ex_clock 100 9 ex_request ex_db20)) 1) = Some 3"
    by (simp add: createOrder_def ex_db20_def ex_cart20_def ex_mug_def ex_request_def isEmpty_def
        reserveStock_def Let_def)
  from r run c m show ?thesis by simp
qed

text \<open>
  Two requests of the same millisecond carry the same lock value, and the comparison in
  the \<^verbatim>\<open>finally\<close> block cannot tell them apart: the request that was refused finds its
  own value under the key and deletes the key while the other request is still in its
  critical section.
\<close>

theorem refused_request_deletes_equal_lock:
  "locks (run (\<lambda>h. ex_reqs H1) [Run H1, Run H1] ex_server) (lockKey (ex_reqs H1)) = Some ''1000'' \<and>
   critical (pc (run (\<lambda>h. ex_reqs H1) [Run H1, Run H1, Run H2, Run H2, Run H2, Run H2] ex_server) H1) \<and>
   pc (run (\<lambda>h. ex_reqs H1) [Run H1, Run H1, Run H2, Run H2, Run H2, Run H2] ex_server) H2 =
     Finished (Inl (ApiError 409 ''Cart is being updated, please try again'')) \<and>
   locks (run (\<lambda>h. ex_reqs H1) [Run H1, Run H1, Run H2, Run H2, Run H2, Run H2] ex_server)
     (lockKey (ex_reqs H1)) = None"
  by (simp add: run_def step_def handlerStep_def ex_server_def ex_mug_def Let_def
      ex_key ex_values ex_fields)

end
